theory Spec2Isabelle
  imports Complex_Main
begin

section \<open>Shared value types\<close>

text \<open>
  Timestamps are integers (microseconds since the epoch): the code only compares them,
  subtracts them and stores them. A UUID is a natural number; a fresh one
  (\<open>uuid.uuid4\<close>) is drawn from a counter kept with the remote store.
\<close>

type_synonym datetime = int
type_synonym uuid = nat

text \<open>
  Rates (\<open>float\<close> in the source, \<open>REAL\<close> in the local store) are rationals, as
  every double is one. Comparisons and maxima of doubles are exact. A sum and a quotient
  are rounded, each in the way of the platform that computes it (Python's \<open>sum\<close> and
  \<open>/\<close>, the \<open>AVG\<close> of SQLite), so the result need not be the exact mean: the two
  operations are parameters of the model, \<open>float_sum\<close> the sum of a list of numbers and
  \<open>float_div\<close> the quotient.
\<close>

record float_arith =
  float_sum :: "rat list \<Rightarrow> rat"
  float_div :: "rat \<Rightarrow> rat \<Rightarrow> rat"

text \<open>The exceptions that the modelled code raises or lets through.\<close>

datatype exn = Full | SqliteError | TypeError | IntegrityError

section \<open>The remote store (src/api/models.py)\<close>

record user =
  u_id :: uuid
  u_email :: string

text \<open>\<open>CloudSession\<close>: the column defaults are 0 for the three aggregates and the duration.\<close>

record cloud_session =
  cs_id :: uuid
  cs_user_id :: uuid
  cs_local_session_id :: "int option"
  cs_start_time :: datetime
  cs_end_time :: "datetime option"
  cs_total_blinks :: int
  cs_avg_blink_rate :: rat
  cs_max_blink_rate :: rat
  cs_session_duration :: int
  cs_device_info :: "string option"
  cs_health_score :: "int option"
  cs_created_at :: datetime

text \<open>\<open>SessionData\<close>: one stored sample of a cloud session.\<close>

record session_data =
  sd_session_id :: uuid
  sd_timestamp :: "datetime option"
  sd_blink_count :: int
  sd_blink_rate :: rat
  sd_eye_aspect_ratio :: "rat option"
  sd_cpu_usage :: "rat option"
  sd_memory_usage :: "rat option"
  sd_created_at :: datetime

record cloud_db =
  cloud_sessions :: "cloud_session list"
  session_data_rows :: "session_data list"
  next_uuid :: uuid

datatype session_status = ACTIVE | PAUSED | ENDED

datatype http_error =
  HTTP_400_BAD_REQUEST string
  | HTTP_403_FORBIDDEN string
  | HTTP_404_NOT_FOUND string
  | HTTP_409_CONFLICT string
  | HTTP_500_INTERNAL_SERVER_ERROR string

record session_response =
  sr_id :: uuid
  sr_start_time :: datetime
  sr_end_time :: "datetime option"
  sr_duration :: int
  sr_total_blinks :: int
  sr_avg_blink_rate :: rat
  sr_max_blink_rate :: rat
  sr_health_score :: "int option"
  sr_status :: session_status

record session_start_request =
  ssr_user_id :: uuid
  ssr_device_info :: string

record session_end_request =
  ser_session_id :: uuid
  ser_total_blinks :: int
  ser_avg_blink_rate :: rat
  ser_max_blink_rate :: rat
  ser_session_duration :: int
  ser_health_score :: "int option"

section \<open>Session endpoints (src/api/routes/sessions.py)\<close>

text \<open>\<open>get_active_session\<close>: the first session of the user whose \<open>end_time\<close> is null.\<close>

definition get_active_session :: "cloud_db \<Rightarrow> uuid \<Rightarrow> cloud_session option" where
  "get_active_session db user_id =
     find (\<lambda>s. cs_user_id s = user_id \<and> cs_end_time s = None) (cloud_sessions db)"

definition calculate_health_score :: "rat \<Rightarrow> int \<Rightarrow> int" where
  "calculate_health_score avg_blink_rate session_duration =
     (let score = 100;
          score = (if avg_blink_rate < 10 then score - 20
                   else if avg_blink_rate > 30 then score - 15
                   else if avg_blink_rate > 25 then score - 10
                   else score);
          score = (if session_duration > 7200 then score - 20
                   else if session_duration > 3600 then score - 10
                   else score)
      in max 0 (min 100 score))"

text \<open>
  An ORM object found with \<open>.first()\<close> and then mutated is the first matching row of the
  table, rewritten in place at commit.
\<close>

fun update_first :: "('a \<Rightarrow> bool) \<Rightarrow> ('a \<Rightarrow> 'a) \<Rightarrow> 'a list \<Rightarrow> 'a list" where
  "update_first P f [] = []"
| "update_first P f (x # xs) = (if P x then f x # xs else x # update_first P f xs)"

definition start_session ::
  "datetime \<Rightarrow> session_start_request \<Rightarrow> user \<Rightarrow> cloud_db
     \<Rightarrow> http_error + (cloud_db \<times> session_response)" where
  "start_session now request current_user db =
     (if ssr_user_id request \<noteq> u_id current_user
      then Inl (HTTP_403_FORBIDDEN ''User ID does not match authenticated user'')
      else case get_active_session db (u_id current_user) of
        Some active_session \<Rightarrow> Inl (HTTP_409_CONFLICT ''User already has an active session'')
      | None \<Rightarrow>
          let session = \<lparr> cs_id = next_uuid db, cs_user_id = u_id current_user,
                           cs_local_session_id = None, cs_start_time = now, cs_end_time = None,
                           cs_total_blinks = 0, cs_avg_blink_rate = 0, cs_max_blink_rate = 0,
                           cs_session_duration = 0,
                           cs_device_info = Some (ssr_device_info request),
                           cs_health_score = None, cs_created_at = now \<rparr>
          in Inr (db\<lparr> cloud_sessions := cloud_sessions db @ [session],
                       next_uuid := Suc (next_uuid db) \<rparr>,
                  \<lparr> sr_id = cs_id session, sr_start_time = cs_start_time session,
                    sr_end_time = cs_end_time session, sr_duration = 0,
                    sr_total_blinks = cs_total_blinks session,
                    sr_avg_blink_rate = cs_avg_blink_rate session,
                    sr_max_blink_rate = cs_max_blink_rate session,
                    sr_health_score = cs_health_score session, sr_status = ACTIVE \<rparr>))"

definition end_session ::
  "datetime \<Rightarrow> session_end_request \<Rightarrow> user \<Rightarrow> cloud_db
     \<Rightarrow> http_error + (cloud_db \<times> session_response)" where
  "end_session now request current_user db =
     (case find (\<lambda>s. cs_id s = ser_session_id request) (cloud_sessions db) of
        None \<Rightarrow> Inl (HTTP_404_NOT_FOUND ''Session not found'')
      | Some session \<Rightarrow>
          if cs_user_id session \<noteq> u_id current_user
          then Inl (HTTP_403_FORBIDDEN ''Session does not belong to authenticated user'')
          else if cs_end_time session \<noteq> None
          then Inl (HTTP_400_BAD_REQUEST ''Session is already ended'')
          else
            let health_score = calculate_health_score (ser_avg_blink_rate request)
                                 (ser_session_duration request);
                session = session\<lparr> cs_end_time := Some now,
                                    cs_total_blinks := ser_total_blinks request,
                                    cs_avg_blink_rate := ser_avg_blink_rate request,
                                    cs_max_blink_rate := ser_max_blink_rate request,
                                    cs_session_duration := ser_session_duration request,
                                    cs_health_score := Some health_score \<rparr>
            in Inr (db\<lparr> cloud_sessions :=
                          update_first (\<lambda>s. cs_id s = ser_session_id request) (\<lambda>_. session)
                            (cloud_sessions db) \<rparr>,
                    \<lparr> sr_id = cs_id session, sr_start_time = cs_start_time session,
                      sr_end_time = cs_end_time session,
                      sr_duration = cs_session_duration session,
                      sr_total_blinks = cs_total_blinks session,
                      sr_avg_blink_rate = cs_avg_blink_rate session,
                      sr_max_blink_rate = cs_max_blink_rate session,
                      sr_health_score = cs_health_score session, sr_status = ENDED \<rparr>))"

text \<open>The deduction table as the specification words it, to compare with the code.\<close>

definition rate_deduction :: "rat \<Rightarrow> int" where
  "rate_deduction a =
     (if a < 10 then 20 else if a > 30 then 15 else if 25 < a \<and> a \<le> 30 then 10 else 0)"

definition duration_deduction :: "int \<Rightarrow> int" where
  "duration_deduction d =
     (if d > 7200 then 20 else if 3600 < d \<and> d \<le> 7200 then 10 else 0)"

definition derived_score_spec :: "rat \<Rightarrow> int \<Rightarrow> int" where
  "derived_score_spec a d = max 0 (min 100 (100 - rate_deduction a - duration_deduction d))"

section \<open>Synchronisation endpoints (src/api/routes/sync.py)\<close>

text \<open>
  The upload request carries untyped dictionaries. For the keys whose value the code only
  passes on or tests for truth, a key that is absent and a key that is null are the same
  (\<open>None\<close>), and a timestamp that is present is truthy. For \<open>blink_count\<close> and
  \<open>blink_rate\<close> they differ: \<open>d.get(k, 0)\<close> is 0 for an absent key and Python's
  \<open>None\<close> for a null one.
\<close>

datatype 'a json_value = Absent | Null | Value 'a

record data_point =
  dp_timestamp :: "datetime option"
  dp_blink_count :: "int json_value"
  dp_blink_rate :: "rat json_value"
  dp_eye_aspect_ratio :: "rat option"
  dp_cpu_usage :: "rat option"
  dp_memory_usage :: "rat option"

record session_payload =
  sp_local_id :: "int option"
  sp_start_time :: "datetime option"
  sp_end_time :: "datetime option"
  sp_blink_data :: "data_point list"

record sync_upload_request =
  sur_user_id :: uuid
  sur_sessions :: "session_payload list"

record sync_response =
  synced_sessions :: nat
  synced_data_points :: nat
  conflicts :: "string list"
  status :: string

text \<open>
  \<open>d.get("blink_count", 0)\<close> and \<open>d.get("blink_rate", 0)\<close>: a number, or Python's
  \<open>None\<close> (here \<open>None\<close> too).
\<close>

definition get_blink_count :: "data_point \<Rightarrow> int option" where
  "get_blink_count d =
     (case dp_blink_count d of Absent \<Rightarrow> Some 0 | Null \<Rightarrow> None | Value c \<Rightarrow> Some c)"

definition get_blink_rate :: "data_point \<Rightarrow> rat option" where
  "get_blink_rate d =
     (case dp_blink_rate d of Absent \<Rightarrow> Some 0 | Null \<Rightarrow> None | Value r \<Rightarrow> Some r)"

text \<open>
  Python's \<open>max\<close> of a non-empty list, given as head and tail: the first item, then
  each further item that compares greater. Comparing with \<open>None\<close> raises
  \<open>TypeError\<close>; a single item is returned without a comparison.
\<close>

fun py_max :: "'a::linorder option \<Rightarrow> 'a option list \<Rightarrow> exn + 'a option" where
  "py_max max_item [] = Inr max_item"
| "py_max max_item (item # rest) =
     (case (max_item, item) of
        (Some a, Some b) \<Rightarrow> py_max (Some (if b > a then b else a)) rest
      | _ \<Rightarrow> Inl TypeError)"

text \<open>
  The mean of the rates is \<open>sum(...) / len(...)\<close>. Python evaluates both operations in
  IEEE doubles when the rates are floats (with a summation that depends on the version of
  the interpreter) and rounds the quotient: \<open>float_sum\<close> is \<open>sum\<close> on a list of
  numbers, \<open>float_div\<close> is \<open>/\<close>. Adding \<open>None\<close> raises \<open>TypeError\<close>.
\<close>

definition py_sum :: "float_arith \<Rightarrow> rat option list \<Rightarrow> exn + rat" where
  "py_sum fl xs =
     (if list_all (\<lambda>x. x \<noteq> None) xs then Inr (float_sum fl (map the xs)) else Inl TypeError)"

text \<open>A statement that may raise, followed by the statements after it.\<close>

definition and_then :: "exn + 'a \<Rightarrow> ('a \<Rightarrow> exn + 'b) \<Rightarrow> exn + 'b" where
  "and_then r f = (case r of Inl e \<Rightarrow> Inl e | Inr x \<Rightarrow> f x)"

text \<open>
  The three aggregates the upload computes from a non-empty \<open>blink_data\<close> list
  \<open>d # ds\<close> (lines 150-152 and 183-185).
\<close>

definition batch_total_blinks :: "data_point \<Rightarrow> data_point list \<Rightarrow> exn + int option" where
  "batch_total_blinks d ds = py_max (get_blink_count d) (map get_blink_count ds)"

definition batch_avg_blink_rate :: "float_arith \<Rightarrow> data_point \<Rightarrow> data_point list \<Rightarrow> exn + rat" where
  "batch_avg_blink_rate fl d ds =
     and_then (py_sum fl (map get_blink_rate (d # ds)))
       (\<lambda>s. Inr (float_div fl s (of_nat (length (d # ds)))))"

definition batch_max_blink_rate :: "data_point \<Rightarrow> data_point list \<Rightarrow> exn + rat option" where
  "batch_max_blink_rate d ds = py_max (get_blink_rate d) (map get_blink_rate ds)"

text \<open>
  \<open>SessionData(...)\<close> for a data point, with the count and the rate read from it.
\<close>

definition make_session_data ::
  "datetime \<Rightarrow> uuid \<Rightarrow> data_point \<Rightarrow> int \<Rightarrow> rat \<Rightarrow> session_data" where
  "make_session_data now session_id d blink_count blink_rate =
     \<lparr> sd_session_id = session_id, sd_timestamp = dp_timestamp d,
       sd_blink_count = blink_count, sd_blink_rate = blink_rate,
       sd_eye_aspect_ratio = dp_eye_aspect_ratio d, sd_cpu_usage = dp_cpu_usage d,
       sd_memory_usage = dp_memory_usage d, sd_created_at = now \<rparr>"

text \<open>
  \<open>process_blink_data\<close>: the loop adds one row per data point and counts it. Building
  the row does not raise, so the \<open>except\<close> branch inside the loop has no case. A row
  whose count or rate is \<open>None\<close> violates \<open>NOT NULL\<close> of \<open>session_data\<close>: the
  flush of the pending rows, which happens later inside the \<open>try\<close> block of
  \<open>upload_local_data\<close>, raises \<open>IntegrityError\<close>. In the model that is the
  result of the loop, which the caller raises where it takes up the rows.
\<close>

fun process_blink_data_loop ::
  "datetime \<Rightarrow> uuid \<Rightarrow> data_point list \<Rightarrow> cloud_db \<times> nat \<Rightarrow> exn + (cloud_db \<times> nat)" where
  "process_blink_data_loop now session_id [] (db, data_points_processed) =
     Inr (db, data_points_processed)"
| "process_blink_data_loop now session_id (d # ds) (db, data_points_processed) =
     (case (get_blink_count d, get_blink_rate d) of
        (Some blink_count, Some blink_rate) \<Rightarrow>
          process_blink_data_loop now session_id ds
            (db\<lparr> session_data_rows := session_data_rows db
                    @ [make_session_data now session_id d blink_count blink_rate] \<rparr>,
             data_points_processed + 1)
      | _ \<Rightarrow> Inl IntegrityError)"

definition process_blink_data ::
  "datetime \<Rightarrow> cloud_db \<Rightarrow> uuid \<Rightarrow> data_point list \<Rightarrow> exn + (cloud_db \<times> nat)" where
  "process_blink_data now db session_id blink_data =
     process_blink_data_loop now session_id blink_data (db, 0)"

text \<open>
  \<open>resolve_session_conflicts\<close>: one message per local session whose start time equals
  that of a cloud session of the user. The message is kept as the pair of ids the source
  formats into it.
\<close>

fun resolve_session_conflicts ::
  "cloud_db \<Rightarrow> uuid \<Rightarrow> session_payload list \<Rightarrow> (int \<times> uuid) list" where
  "resolve_session_conflicts db user_id [] = []"
| "resolve_session_conflicts db user_id (local_session # rest) =
     (case (sp_start_time local_session, sp_local_id local_session) of
        (Some start_time, Some local_session_id) \<Rightarrow>
          (if local_session_id = 0 then resolve_session_conflicts db user_id rest
           else case find (\<lambda>s. cs_user_id s = user_id \<and> cs_start_time s = start_time)
                       (cloud_sessions db) of
                  Some existing_session \<Rightarrow>
                    (local_session_id, cs_id existing_session)
                      # resolve_session_conflicts db user_id rest
                | None \<Rightarrow> resolve_session_conflicts db user_id rest)
      | _ \<Rightarrow> resolve_session_conflicts db user_id rest)"

text \<open>
  \<open>max(a, b)\<close> of a stored aggregate and a computed one, which may be \<open>None\<close>.
\<close>

definition py_max2 :: "'a::linorder \<Rightarrow> 'a option \<Rightarrow> exn + 'a" where
  "py_max2 a b = (case b of None \<Rightarrow> Inl TypeError | Some b \<Rightarrow> Inr (if b > a then b else a))"

text \<open>
  The branch of \<open>upload_local_data\<close> for a local session that has a match (lines
  144-156): what it makes of the matching remote session, if no statement raises.
\<close>

definition merge_existing ::
  "float_arith \<Rightarrow> session_payload \<Rightarrow> cloud_session \<Rightarrow> exn + cloud_session" where
  "merge_existing fl session_data existing_session =
     (let existing_session =
            (case (sp_end_time session_data, cs_end_time existing_session) of
               (Some end_time, None) \<Rightarrow> existing_session\<lparr> cs_end_time := Some end_time \<rparr>
             | _ \<Rightarrow> existing_session)
      in case sp_blink_data session_data of
           [] \<Rightarrow> Inr existing_session
         | d # ds \<Rightarrow>
             and_then (batch_total_blinks d ds) (\<lambda>total_blinks.
             and_then (batch_avg_blink_rate fl d ds) (\<lambda>avg_blink_rate.
             and_then (batch_max_blink_rate d ds) (\<lambda>max_blink_rate.
             and_then (py_max2 (cs_total_blinks existing_session) total_blinks) (\<lambda>new_total.
             and_then (py_max2 (cs_avg_blink_rate existing_session) (Some avg_blink_rate))
               (\<lambda>new_avg.
             and_then (py_max2 (cs_max_blink_rate existing_session) max_blink_rate) (\<lambda>new_max.
               Inr (existing_session\<lparr> cs_total_blinks := new_total,
                                       cs_avg_blink_rate := new_avg,
                                       cs_max_blink_rate := new_max \<rparr>))))))))"

text \<open>
  The other branch (lines 165-189): the remote session it creates, with the aggregates of
  the uploaded blink data if there are any. A total that is \<open>None\<close> comes from a data
  point with a null count, whose row the flush refuses.
\<close>

definition create_cloud_session ::
  "float_arith \<Rightarrow> datetime \<Rightarrow> uuid \<Rightarrow> uuid \<Rightarrow> datetime \<Rightarrow> session_payload
     \<Rightarrow> exn + cloud_session" where
  "create_cloud_session fl now new_id user_id start_time session_data =
     (let cloud_session =
            \<lparr> cs_id = new_id, cs_user_id = user_id,
              cs_local_session_id = sp_local_id session_data,
              cs_start_time = start_time, cs_end_time = sp_end_time session_data,
              cs_total_blinks = 0, cs_avg_blink_rate = 0, cs_max_blink_rate = 0,
              cs_session_duration = 0, cs_device_info = None, cs_health_score = None,
              cs_created_at = now \<rparr>
      in case sp_blink_data session_data of
           [] \<Rightarrow> Inr cloud_session
         | d # ds \<Rightarrow>
             and_then (batch_total_blinks d ds) (\<lambda>total_blinks.
             and_then (batch_avg_blink_rate fl d ds) (\<lambda>avg_blink_rate.
             and_then (batch_max_blink_rate d ds) (\<lambda>max_blink_rate.
               case (total_blinks, max_blink_rate) of
                 (Some total_blinks, Some max_blink_rate) \<Rightarrow>
                   Inr (cloud_session\<lparr> cs_total_blinks := total_blinks,
                                         cs_avg_blink_rate := avg_blink_rate,
                                         cs_max_blink_rate := max_blink_rate \<rparr>)
               | _ \<Rightarrow> Inl IntegrityError))))"

text \<open>
  The body of the loop of \<open>upload_local_data\<close> for one local session. The state is the
  store with the two counters \<open>synced_sessions\<close> and \<open>synced_data_points\<close>. In
  the branch that creates a session the rows are added before the aggregates are computed
  and flushed after, so an exception of the aggregates comes first.
\<close>

definition upload_session ::
  "float_arith \<Rightarrow> datetime \<Rightarrow> uuid \<Rightarrow> session_payload \<Rightarrow> cloud_db \<times> nat \<times> nat
     \<Rightarrow> exn + (cloud_db \<times> nat \<times> nat)" where
  "upload_session fl now user_id session_data st =
     (case st of (db, n_sessions, n_points) \<Rightarrow>
        (case sp_start_time session_data of
           None \<Rightarrow> Inr (db, n_sessions, n_points)
         | Some start_time \<Rightarrow>
             let matches = (\<lambda>s. cs_user_id s = user_id \<and> cs_start_time s = start_time)
             in (case find matches (cloud_sessions db) of
                  Some existing_session \<Rightarrow>
                    and_then (merge_existing fl session_data existing_session) (\<lambda>merged.
                    and_then (process_blink_data now
                                (db\<lparr> cloud_sessions :=
                                       update_first matches (\<lambda>_. merged) (cloud_sessions db) \<rparr>)
                                (cs_id existing_session) (sp_blink_data session_data))
                      (\<lambda>(db, data_points_added).
                         Inr (db, n_sessions, n_points + data_points_added)))
                | None \<Rightarrow>
                    let new_id = next_uuid db;
                        pending = process_blink_data now db new_id (sp_blink_data session_data)
                    in and_then (create_cloud_session fl now new_id user_id start_time session_data)
                         (\<lambda>cloud_session.
                    and_then pending
                         (\<lambda>(db, data_points_added).
                            Inr (db\<lparr> cloud_sessions := cloud_sessions db @ [cloud_session],
                                     next_uuid := Suc new_id \<rparr>,
                                 n_sessions + 1, n_points + data_points_added))))))"

fun upload_sessions ::
  "float_arith \<Rightarrow> datetime \<Rightarrow> uuid \<Rightarrow> session_payload list \<Rightarrow> cloud_db \<times> nat \<times> nat
     \<Rightarrow> exn + (cloud_db \<times> nat \<times> nat)" where
  "upload_sessions fl now user_id [] st = Inr st"
| "upload_sessions fl now user_id (session_data # rest) st =
     and_then (upload_session fl now user_id session_data st)
       (upload_sessions fl now user_id rest)"

text \<open>
  \<open>upload_local_data\<close>. An exception inside the \<open>try\<close> block rolls the transaction
  back, so the store stays as it was, and is answered with status 500.
\<close>

definition upload_local_data ::
  "float_arith \<Rightarrow> datetime \<Rightarrow> sync_upload_request \<Rightarrow> user \<Rightarrow> cloud_db
     \<Rightarrow> http_error + (cloud_db \<times> sync_response)" where
  "upload_local_data fl now request current_user db =
     (if sur_user_id request \<noteq> u_id current_user
      then Inl (HTTP_403_FORBIDDEN ''User ID does not match authenticated user'')
      else
        let conflicts = []
        in case upload_sessions fl now (u_id current_user) (sur_sessions request) (db, 0, 0) of
             Inr (db, n_sessions, n_points) \<Rightarrow>
               Inr (db, \<lparr> synced_sessions = n_sessions, synced_data_points = n_points,
                           conflicts = conflicts, status = ''success'' \<rparr>)
           | Inl e \<Rightarrow> Inl (HTTP_500_INTERNAL_SERVER_ERROR ''Sync failed''))"

section \<open>The local store (src/desktop/database)\<close>

text \<open>
  A row of \<open>local_sessions\<close>. \<open>avg_blink_rate\<close> is nullable in effect: the update
  of the totals stores an SQL \<open>AVG\<close>, which is NULL over no rows.
\<close>

record local_session =
  ls_id :: int
  ls_user_id :: "string option"
  ls_user_email :: "string option"
  ls_start_time :: datetime
  ls_end_time :: "datetime option"
  ls_total_blinks :: int
  ls_max_blink_rate :: rat
  ls_avg_blink_rate :: "rat option"
  ls_session_duration :: int
  ls_is_synced :: bool
  ls_cloud_session_id :: "string option"
  ls_created_at :: datetime

text \<open>\<open>BlinkData\<close>, both the queued object (no id yet) and the stored row.\<close>

record blink_data =
  bd_id :: "int option"
  bd_session_id :: int
  bd_user_id :: "string option"
  bd_timestamp :: datetime
  bd_blink_count :: int
  bd_blink_rate :: rat
  bd_eye_aspect_ratio :: "rat option"
  bd_is_synced :: bool

record sqlite_db =
  local_sessions :: "local_session list"
  blink_data_rows :: "blink_data list"
  next_session_id :: int
  next_blink_id :: int

text \<open>
  \<open>queue.Queue(maxsize)\<close> of the standard library: \<open>maxsize = 0\<close> means no bound, and
  \<open>put(block=False)\<close> raises \<open>Full\<close> only when \<open>0 < maxsize \<le> qsize\<close>.
\<close>

record blink_queue =
  maxsize :: nat
  items :: "blink_data list"

datatype log_level = DEBUG | INFO | WARNING | ERROR

definition Queue :: "nat \<Rightarrow> blink_queue" where
  "Queue n = \<lparr> maxsize = n, items = [] \<rparr>"

definition queue_full :: "blink_queue \<Rightarrow> bool" where
  "queue_full q = (0 < maxsize q \<and> maxsize q \<le> length (items q))"

definition put_nowait :: "blink_queue \<Rightarrow> blink_data \<Rightarrow> exn + blink_queue" where
  "put_nowait q x = (if queue_full q then Inl Full else Inr (q\<lparr> items := items q @ [x] \<rparr>))"

text \<open>
  \<open>SQLiteManager\<close>. The batch and the time of the last flush are the local variables of
  the worker thread; \<open>logged\<close> collects what the logger is given (level and the fixed part
  of the message).
\<close>

record manager =
  user_id :: "string option"
  user_email :: "string option"
  blink_queue :: blink_queue
  batch_size :: nat
  batch_timeout :: rat
  current_session_id :: "int option"
  db :: sqlite_db
  worker_batch :: "blink_data list"
  worker_last_batch_time :: rat
  logged :: "(log_level \<times> string) list"

definition logger :: "log_level \<Rightarrow> string \<Rightarrow> manager \<Rightarrow> manager" where
  "logger level msg m = m\<lparr> logged := logged m @ [(level, msg)] \<rparr>"

definition empty_db :: sqlite_db where
  "empty_db = \<lparr> local_sessions = [], blink_data_rows = [], next_session_id = 1,
                 next_blink_id = 1 \<rparr>"

text \<open>
  \<open>__init__\<close> on a database file with contents \<open>d\<close>, starting the worker at time
  \<open>t0\<close>. The queue is built by \<open>queue.Queue()\<close>, that is with \<open>maxsize = 0\<close>.
\<close>

definition init_manager ::
  "sqlite_db \<Rightarrow> (string \<rightharpoonup> string) option \<Rightarrow> rat \<Rightarrow> manager" where
  "init_manager d user_data t0 =
     logger INFO ''SQLite manager initialized''
       \<lparr> user_id = (case user_data of None \<Rightarrow> None | Some u \<Rightarrow> u ''id''),
         user_email = (case user_data of None \<Rightarrow> None | Some u \<Rightarrow> u ''email''),
         blink_queue = Queue 0,
         batch_size = 50,
         batch_timeout = 2,
         current_session_id = None,
         db = d,
         worker_batch = [],
         worker_last_batch_time = t0,
         logged = [] \<rparr>"

text \<open>
  Every statement on the database can fail (locked file, full disk). Each operation takes
  a flag \<open>db_ok\<close> that says whether its statements succeed; the foreign key of
  \<open>blink_data\<close> is checked besides.
\<close>

definition insert_blink_batch ::
  "bool \<Rightarrow> blink_data list \<Rightarrow> manager \<Rightarrow> manager \<times> (exn + unit)" where
  "insert_blink_batch db_ok blink_data_list m =
     (if db_ok \<and> list_all (\<lambda>b. bd_session_id b \<in> set (map ls_id (local_sessions (db m))))
                  blink_data_list
      then
        let d = db m;
            new_rows = map (\<lambda>(i, b). b\<lparr> bd_id := Some (next_blink_id d + int i),
                                         bd_user_id := None \<rparr>)
                         (enumerate 0 blink_data_list);
            d = d\<lparr> blink_data_rows := blink_data_rows d @ new_rows,
                   next_blink_id := next_blink_id d + int (length blink_data_list) \<rparr>
        in (logger DEBUG ''Inserted blink records in batch'' (m\<lparr> db := d \<rparr>), Inr ())
      else (logger ERROR ''Error inserting blink batch'' m, Inl SqliteError))"

text \<open>
  One iteration of the loop of \<open>_process_blink_batches\<close> at time \<open>current_time\<close>.
  First the \<open>get\<close>, which yields the head of the queue if there is one and is
  skipped over when the queue is empty; then the flush, if one is due.
\<close>

definition worker_get :: "manager \<Rightarrow> manager" where
  "worker_get m =
     (case items (blink_queue m) of
        [] \<Rightarrow> m
      | blink_data # rest \<Rightarrow>
          m\<lparr> blink_queue := (blink_queue m)\<lparr> items := rest \<rparr>,
             worker_batch := worker_batch m @ [blink_data] \<rparr>)"

definition process_blink_batches_step :: "bool \<Rightarrow> rat \<Rightarrow> manager \<Rightarrow> manager" where
  "process_blink_batches_step db_ok current_time m =
     (let m = worker_get m;
          batch = worker_batch m
      in if length batch \<ge> batch_size m
            \<or> (batch \<noteq> [] \<and> current_time - worker_last_batch_time m \<ge> batch_timeout m)
         then (if batch \<noteq> []
               then (case insert_blink_batch db_ok batch m of
                       (m, Inr _) \<Rightarrow>
                         m\<lparr> worker_batch := [], worker_last_batch_time := current_time \<rparr>
                     | (m, Inl e) \<Rightarrow> logger ERROR ''Error in blink batch processing'' m)
               else m)
         else m)"



text \<open>
  \<open>SELECT id FROM local_sessions WHERE end_time IS NULL ORDER BY start_time DESC LIMIT 1\<close>
\<close>

definition select_active_session :: "local_session list \<Rightarrow> local_session option" where
  "select_active_session rows =
     (case filter (\<lambda>s. ls_end_time s = None) rows of
        [] \<Rightarrow> None
      | s # ss \<Rightarrow>
          Some (fold (\<lambda>b a. if ls_start_time a < ls_start_time b then b else a) ss s))"

definition auto_create_session :: "bool \<Rightarrow> datetime \<Rightarrow> manager \<Rightarrow> manager \<times> (exn + int)" where
  "auto_create_session db_ok now m =
     (if \<not> db_ok then (logger ERROR ''Error auto-creating session'' m, Inl SqliteError)
      else case select_active_session (local_sessions (db m)) of
        Some active_session \<Rightarrow>
          let session_id = ls_id active_session;
              m = logger INFO ''Using existing active session'' m
          in (m\<lparr> current_session_id := Some session_id \<rparr>, Inr session_id)
      | None \<Rightarrow>
          let d = db m;
              session_id = next_session_id d;
              row = \<lparr> ls_id = session_id, ls_user_id = user_id m,
                      ls_user_email = user_email m, ls_start_time = now, ls_end_time = None,
                      ls_total_blinks = 0, ls_max_blink_rate = 0, ls_avg_blink_rate = Some 0,
                      ls_session_duration = 0, ls_is_synced = False,
                      ls_cloud_session_id = None, ls_created_at = now \<rparr>;
              d = d\<lparr> local_sessions := local_sessions d @ [row],
                     next_session_id := session_id + 1 \<rparr>;
              m = logger INFO ''Auto-created new session'' (m\<lparr> db := d \<rparr>)
          in (m\<lparr> current_session_id := Some session_id \<rparr>, Inr session_id))"

text \<open>
  SQL \<open>AVG\<close>: NULL over no rows, else the sum of the values divided by their number,
  both computed in doubles.
\<close>

definition sql_avg :: "float_arith \<Rightarrow> rat list \<Rightarrow> rat option" where
  "sql_avg fl xs =
     (if xs = [] then None else Some (float_div fl (float_sum fl xs) (of_nat (length xs))))"

definition update_session_totals :: "float_arith \<Rightarrow> bool \<Rightarrow> int \<Rightarrow> rat \<Rightarrow> manager \<Rightarrow> manager" where
  "update_session_totals fl db_ok blink_count blink_rate m =
     (if \<not> db_ok then logger ERROR ''Error updating session totals'' m
      else case current_session_id m of
        None \<Rightarrow> m
      | Some sid \<Rightarrow>
          let d = db m;
              avg = sql_avg fl (map bd_blink_rate
                               (filter (\<lambda>b. bd_session_id b = sid) (blink_data_rows d)));
              upd = (\<lambda>s. if ls_id s = sid
                          then s\<lparr> ls_total_blinks := blink_count,
                                  ls_max_blink_rate :=
                                    (if blink_rate > ls_max_blink_rate s then blink_rate
                                     else ls_max_blink_rate s),
                                  ls_avg_blink_rate := avg \<rparr>
                          else s)
          in m\<lparr> db := d\<lparr> local_sessions := map upd (local_sessions d) \<rparr> \<rparr>)"

text \<open>
  \<open>log_blink\<close>. The body of its \<open>try\<close> block first, with the exception it can end in;
  then the function with its handlers.
\<close>

definition log_blink_try ::
  "float_arith \<Rightarrow> bool \<Rightarrow> datetime \<Rightarrow> int \<Rightarrow> int \<Rightarrow> rat \<Rightarrow> rat option \<Rightarrow> manager
     \<Rightarrow> manager \<times> (exn + unit)" where
  "log_blink_try fl db_ok now sid blink_count blink_rate eye_aspect_ratio m =
     (let blink_data = \<lparr> bd_id = None, bd_session_id = sid, bd_user_id = user_id m,
                         bd_timestamp = now, bd_blink_count = blink_count,
                         bd_blink_rate = blink_rate, bd_eye_aspect_ratio = eye_aspect_ratio,
                         bd_is_synced = False \<rparr>
      in case put_nowait (blink_queue m) blink_data of
           Inl e \<Rightarrow> (m, Inl e)
         | Inr q \<Rightarrow>
             let m = update_session_totals fl db_ok blink_count blink_rate (m\<lparr> blink_queue := q \<rparr>)
             in (logger DEBUG ''Blink logged'' m, Inr ()))"

definition log_blink ::
  "float_arith \<Rightarrow> bool \<Rightarrow> datetime \<Rightarrow> int \<Rightarrow> rat \<Rightarrow> rat option \<Rightarrow> manager
     \<Rightarrow> manager \<times> (exn + unit)" where
  "log_blink fl db_ok now blink_count blink_rate eye_aspect_ratio m =
     (case current_session_id m of
        None \<Rightarrow> (logger WARNING ''No active session for blink logging'' m, Inr ())
      | Some sid \<Rightarrow>
          (case log_blink_try fl db_ok now sid blink_count blink_rate eye_aspect_ratio m of
             (m, Inr _) \<Rightarrow> (m, Inr ())
           | (m, Inl Full) \<Rightarrow> (logger WARNING ''Blink queue full, dropping blink data'' m, Inr ())
           | (m, Inl e) \<Rightarrow> (logger ERROR ''Error logging blink'' m, Inr ())))"

definition get_session :: "manager \<Rightarrow> int \<Rightarrow> local_session option" where
  "get_session m session_id = find (\<lambda>s. ls_id s = session_id) (local_sessions (db m))"

text \<open>\<open>int(delta.total_seconds())\<close>: whole seconds, truncated towards zero.\<close>

definition total_seconds_int :: "int \<Rightarrow> int" where
  "total_seconds_int delta =
     (if delta \<ge> 0 then delta div 1000000 else - ((- delta) div 1000000))"

text \<open>
  \<open>end_current_session\<close>. It first waits, holding the lock, until the queue is empty;
  only the worker thread empties the queue. The result is \<open>None\<close> while that wait
  goes on. A row that is missing makes \<open>fetchone()\<close> return \<open>None\<close>, whose subscript
  raises; the handler logs and returns \<open>None\<close>.
\<close>

definition end_current_session ::
  "bool \<Rightarrow> datetime \<Rightarrow> manager \<Rightarrow> (manager \<times> local_session option) option" where
  "end_current_session db_ok end_time m =
     (case current_session_id m of
        None \<Rightarrow> Some (m, None)
      | Some sid \<Rightarrow>
          if items (blink_queue m) \<noteq> [] then None
          else if \<not> db_ok then Some (logger ERROR ''Error ending session'' m, None)
          else (case get_session m sid of
            None \<Rightarrow> Some (logger ERROR ''Error ending session'' m, None)
          | Some row \<Rightarrow>
              let d = db m;
                  duration = total_seconds_int (end_time - ls_start_time row);
                  upd = (\<lambda>s. if ls_id s = sid
                              then s\<lparr> ls_end_time := Some end_time,
                                      ls_session_duration := duration \<rparr>
                              else s);
                  m = m\<lparr> db := d\<lparr> local_sessions := map upd (local_sessions d) \<rparr> \<rparr>;
                  session_data = get_session m sid;
                  m = m\<lparr> current_session_id := None \<rparr>
              in Some (logger INFO ''Session ended'' m, session_data)))"

text \<open>
  \<open>cleanup_old_data\<close>: closed sessions that started before the cutoff are deleted, and
  their blink rows with them (\<open>ON DELETE CASCADE\<close>).
\<close>

definition cleanup_old_data :: "bool \<Rightarrow> datetime \<Rightarrow> int \<Rightarrow> manager \<Rightarrow> manager" where
  "cleanup_old_data db_ok now days_to_keep m =
     (if \<not> db_ok then logger ERROR ''Error during cleanup'' m
      else
        let d = db m;
            cutoff_date = now - days_to_keep * 86400 * 1000000;
            old = (\<lambda>s. ls_start_time s < cutoff_date \<and> ls_end_time s \<noteq> None);
            deleted = map ls_id (filter old (local_sessions d));
            d = d\<lparr> local_sessions := filter (\<lambda>s. \<not> old s) (local_sessions d),
                   blink_data_rows :=
                     filter (\<lambda>b. bd_session_id b \<notin> set deleted) (blink_data_rows d) \<rparr>
        in logger INFO ''Cleanup completed'' (m\<lparr> db := d \<rparr>))"

text \<open>
  The operations on a local store, as they can follow each other: a process start on the
  existing file, the producer's calls, one iteration of the worker, the retention sweep.
\<close>

datatype local_op =
  Restart "(string \<rightharpoonup> string) option" rat
  | AutoCreateSession bool datetime
  | LogBlink bool datetime int rat "rat option"
  | WorkerStep bool rat
  | EndCurrentSession bool datetime
  | CleanupOldData bool datetime int

fun apply_op :: "float_arith \<Rightarrow> local_op \<Rightarrow> manager \<Rightarrow> manager" where
  "apply_op fl (Restart user_data t0) m = init_manager (db m) user_data t0"
| "apply_op fl (AutoCreateSession db_ok now) m = fst (auto_create_session db_ok now m)"
| "apply_op fl (LogBlink db_ok now c r e) m = fst (log_blink fl db_ok now c r e m)"
| "apply_op fl (WorkerStep db_ok t) m = process_blink_batches_step db_ok t m"
| "apply_op fl (EndCurrentSession db_ok now) m =
     (case end_current_session db_ok now m of None \<Rightarrow> m | Some (m', _) \<Rightarrow> m')"
| "apply_op fl (CleanupOldData db_ok now days) m = cleanup_old_data db_ok now days m"

fun run_ops :: "float_arith \<Rightarrow> local_op list \<Rightarrow> manager \<Rightarrow> manager" where
  "run_ops fl [] m = m"
| "run_ops fl (op # ops) m = run_ops fl ops (apply_op fl op m)"

definition open_sessions :: "local_session list \<Rightarrow> local_session list" where
  "open_sessions rows = filter (\<lambda>s. ls_end_time s = None) rows"

definition open_cloud_sessions :: "uuid \<Rightarrow> cloud_db \<Rightarrow> cloud_session list" where
  "open_cloud_sessions owner d =
     filter (\<lambda>s. cs_user_id s = owner \<and> cs_end_time s = None) (cloud_sessions d)"

section \<open>Notions the properties are stated with\<close>

text \<open>
  The end time of a merged remote session, as the merge policy words it: the local one
  if the remote one is null, else the remote one.
\<close>

definition merged_end_time :: "cloud_session \<Rightarrow> session_payload \<Rightarrow> datetime option" where
  "merged_end_time r p = (case cs_end_time r of None \<Rightarrow> sp_end_time p | Some e \<Rightarrow> Some e)"

text \<open>The id of the remote session that a local session of this owner and start time matches.\<close>

definition session_id_for :: "uuid \<Rightarrow> datetime \<Rightarrow> cloud_db \<Rightarrow> uuid option" where
  "session_id_for owner t cdb =
     map_option cs_id
       (find (\<lambda>s. cs_user_id s = owner \<and> cs_start_time s = t) (cloud_sessions cdb))"

text \<open>
  The count and the rate that a data point carries: the default 0 when the key is absent.
\<close>

definition point_count :: "data_point \<Rightarrow> int" where
  "point_count d = (case dp_blink_count d of Value c \<Rightarrow> c | _ \<Rightarrow> 0)"

definition point_rate :: "data_point \<Rightarrow> rat" where
  "point_rate d = (case dp_blink_rate d of Value r \<Rightarrow> r | _ \<Rightarrow> 0)"

text \<open>No data point of the list has a null count or a null rate.\<close>

definition valid_points :: "data_point list \<Rightarrow> bool" where
  "valid_points ds = list_all (\<lambda>d. dp_blink_count d \<noteq> Null \<and> dp_blink_rate d \<noteq> Null) ds"

text \<open>
  The merge policy as the specification words it, on the aggregates of the uploaded data
  points: the maximum of the remote value and the local one for the total, the average
  rate and the maximum rate, where the local total is the greatest count, the local
  average the mean of the rates as Python computes it, and the local maximum the greatest
  rate. Without data points the aggregates stay.
\<close>

definition merged_session :: "float_arith \<Rightarrow> cloud_session \<Rightarrow> session_payload \<Rightarrow> cloud_session" where
  "merged_session fl r p =
     (if sp_blink_data p = [] then r\<lparr> cs_end_time := merged_end_time r p \<rparr>
      else r\<lparr> cs_end_time := merged_end_time r p,
              cs_total_blinks :=
                max (cs_total_blinks r) (Max (set (map point_count (sp_blink_data p)))),
              cs_avg_blink_rate :=
                max (cs_avg_blink_rate r)
                  (float_div fl (float_sum fl (map point_rate (sp_blink_data p)))
                     (of_nat (length (sp_blink_data p)))),
              cs_max_blink_rate :=
                max (cs_max_blink_rate r) (Max (set (map point_rate (sp_blink_data p)))) \<rparr>)"

text \<open>
  The event rows of a list of local sessions, each under the remote session it matches in
  the given store, and their number.
\<close>

definition uploaded_rows ::
  "datetime \<Rightarrow> uuid \<Rightarrow> cloud_db \<Rightarrow> session_payload list \<Rightarrow> session_data list" where
  "uploaded_rows now owner cdb ps =
     concat (map (\<lambda>p. case sp_start_time p of
                         None \<Rightarrow> []
                       | Some t \<Rightarrow>
                           (case session_id_for owner t cdb of
                              None \<Rightarrow> []
                            | Some sid \<Rightarrow>
                                map (\<lambda>d. make_session_data now sid d (point_count d) (point_rate d))
                                  (sp_blink_data p)))
                 ps)"

definition count_points :: "session_payload list \<Rightarrow> nat" where
  "count_points ps =
     sum_list (map (\<lambda>p. case sp_start_time p of None \<Rightarrow> 0
                         | Some t \<Rightarrow> length (sp_blink_data p)) ps)"

text \<open>Every local session of the list that has a start time has a match in the store.\<close>

definition all_known :: "uuid \<Rightarrow> cloud_db \<Rightarrow> session_payload list \<Rightarrow> bool" where
  "all_known owner cdb ps =
     list_all (\<lambda>p. case sp_start_time p of None \<Rightarrow> True
                    | Some t \<Rightarrow> session_id_for owner t cdb \<noteq> None) ps"


text \<open>Merges of one remote session with a list of uploads, one after the other.\<close>

fun merge_all :: "float_arith \<Rightarrow> session_payload list \<Rightarrow> cloud_session \<Rightarrow> exn + cloud_session" where
  "merge_all fl [] r = Inr r"
| "merge_all fl (p # ps) r = and_then (merge_existing fl p r) (merge_all fl ps)"

section \<open>Example states\<close>

definition user_one :: user where
  "user_one = \<lparr> u_id = 1, u_email = ''a@b.c'' \<rparr>"

text \<open>A remote store with one open session of user 1 that started at time 1000.\<close>

definition db_one :: cloud_db where
  "db_one = \<lparr> cloud_sessions =
      [\<lparr> cs_id = 7, cs_user_id = 1, cs_local_session_id = None, cs_start_time = 1000,
         cs_end_time = None, cs_total_blinks = 30, cs_avg_blink_rate = 12,
         cs_max_blink_rate = 20, cs_session_duration = 0, cs_device_info = None,
         cs_health_score = None, cs_created_at = 1000 \<rparr>],
      session_data_rows = [], next_uuid = 8 \<rparr>"

definition end_request_one :: session_end_request where
  "end_request_one = \<lparr> ser_session_id = 7, ser_total_blinks = 40, ser_avg_blink_rate = 35,
      ser_max_blink_rate = 50, ser_session_duration = 8000, ser_health_score = None \<rparr>"

text \<open>The same store with the session closed at time 2000.\<close>

definition db_closed :: cloud_db where
  "db_closed = db_one\<lparr> cloud_sessions :=
      map (\<lambda>s. s\<lparr> cs_end_time := Some 2000 \<rparr>) (cloud_sessions db_one) \<rparr>"

text \<open>
  Arithmetic without rounding. IEEE doubles add and divide the rates of the examples
  exactly.
\<close>

definition exact_arith :: float_arith where
  "exact_arith = \<lparr> float_sum = sum_list, float_div = (\<lambda>a b. a / b) \<rparr>"

definition point :: "datetime \<Rightarrow> int \<Rightarrow> rat \<Rightarrow> data_point" where
  "point t c r = \<lparr> dp_timestamp = Some t, dp_blink_count = Value c, dp_blink_rate = Value r,
                   dp_eye_aspect_ratio = None, dp_cpu_usage = None, dp_memory_usage = None \<rparr>"

text \<open>
  An upload of one local session that started at time 1000 too, closed locally at time
  3000, with two data points: counts 40 and 25, rates 26 and 14.
\<close>

definition upload_one :: sync_upload_request where
  "upload_one = \<lparr> sur_user_id = 1, sur_sessions =
      [\<lparr> sp_local_id = Some 3, sp_start_time = Some 1000, sp_end_time = Some 3000,
         sp_blink_data = [point 1100 40 26, point 1200 25 14] \<rparr>] \<rparr>"

definition fresh_manager :: manager where
  "fresh_manager = init_manager empty_db None 0"

text \<open>The two uploads of that session, one after the other, at the same server time.\<close>

definition once :: "cloud_db \<times> sync_response" where
  "once = projr (upload_local_data exact_arith 5000 upload_one user_one db_one)"

definition twice :: "cloud_db \<times> sync_response" where
  "twice = projr (upload_local_data exact_arith 5000 upload_one user_one (fst once))"

text \<open>The manager after a process start on an empty file and the automatic session.\<close>

definition started_manager :: manager where
  "started_manager = fst (auto_create_session True 100 fresh_manager)"

definition empty_cloud_db :: cloud_db where
  "empty_cloud_db = \<lparr> cloud_sessions = [], session_data_rows = [], next_uuid = 0 \<rparr>"

definition start_request_one :: session_start_request where
  "start_request_one = \<lparr> ssr_user_id = 1, ssr_device_info = ''linux'' \<rparr>"

text \<open>Two local sessions that started at times 2000 and 3000 and are still open.\<close>

definition open_payload :: session_payload where
  "open_payload = \<lparr> sp_local_id = Some 4, sp_start_time = Some 2000, sp_end_time = None,
                     sp_blink_data = [] \<rparr>"

definition open_payload_b :: session_payload where
  "open_payload_b = \<lparr> sp_local_id = Some 5, sp_start_time = Some 3000, sp_end_time = None,
                       sp_blink_data = [] \<rparr>"

text \<open>One upload that carries both open local sessions.\<close>

definition upload_open :: sync_upload_request where
  "upload_open = \<lparr> sur_user_id = 1, sur_sessions = [open_payload, open_payload_b] \<rparr>"

text \<open>Two ingests in the started session: a count of 5, then a count of 3.\<close>

definition after_blink_5 :: manager where
  "after_blink_5 = fst (log_blink exact_arith True 110 5 12 None started_manager)"

definition after_blink_3 :: manager where
  "after_blink_3 = fst (log_blink exact_arith True 120 3 12 None after_blink_5)"



text \<open>The started session closed at time 900.\<close>

definition ended_manager :: manager where
  "ended_manager = fst (the (end_current_session True 900 started_manager))"

text \<open>The event of the first ingest of the example, as it is queued.\<close>

definition blink_5 :: blink_data where
  "blink_5 = \<lparr> bd_id = None, bd_session_id = 1, bd_user_id = None, bd_timestamp = 110,
               bd_blink_count = 5, bd_blink_rate = 12, bd_eye_aspect_ratio = None,
               bd_is_synced = False \<rparr>"


section \<open>Properties\<close>

subsection \<open>Helper facts\<close>

lemma update_first_find_same:
  "find P xs = Some x \<Longrightarrow> P (f x) \<Longrightarrow> find P (update_first P f xs) = Some (f x)"
  by (induction xs) (auto split: if_splits)

subsection \<open>The derived score\<close>

text \<open>
  C5. The health score the code computes is the clamp to [0,100] of 100 minus one rate
  deduction and one duration deduction, as the specification tabulates them; an average
  rate of 35 over 8000 seconds gives 65, and 8 over 500 seconds gives 80. A session that
  \<open>end_session\<close> closes gets this score, from the average rate and the duration of the
  request, both in the response and in the stored row.
\<close>

theorem health_score_at_close:
  "calculate_health_score a d = derived_score_spec a d
   \<and> calculate_health_score 35 8000 = 65
   \<and> calculate_health_score 8 500 = 80
   \<and> (end_session now request current_user cdb = Inr (cdb', resp) \<longrightarrow>
        sr_health_score resp
          = Some (derived_score_spec (ser_avg_blink_rate request) (ser_session_duration request))
        \<and> map_option cs_health_score
            (find (\<lambda>s. cs_id s = ser_session_id request) (cloud_sessions cdb'))
          = Some (sr_health_score resp))"
proof -
  have table: "calculate_health_score a d = derived_score_spec a d" for a d
    by (simp add: calculate_health_score_def derived_score_spec_def rate_deduction_def
        duration_deduction_def Let_def)
  have s1: "calculate_health_score 35 8000 = 65"
    by (simp add: calculate_health_score_def Let_def)
  have s2: "calculate_health_score 8 500 = 80"
    by (simp add: calculate_health_score_def Let_def)
  have close: "sr_health_score resp
          = Some (derived_score_spec (ser_avg_blink_rate request) (ser_session_duration request))
        \<and> map_option cs_health_score
            (find (\<lambda>s. cs_id s = ser_session_id request) (cloud_sessions cdb'))
          = Some (sr_health_score resp)"
    if ok: "end_session now request current_user cdb = Inr (cdb', resp)"
  proof -
    from ok obtain session where
      f: "find (\<lambda>s. cs_id s = ser_session_id request) (cloud_sessions cdb) = Some session"
      by (auto simp: end_session_def split: option.splits)
    from f have idm: "cs_id session = ser_session_id request"
      by (auto simp: find_Some_iff)
    from ok f have
      r: "sr_health_score resp = Some (calculate_health_score (ser_avg_blink_rate request)
             (ser_session_duration request))"
      and c: "cloud_sessions cdb' = update_first (\<lambda>s. cs_id s = ser_session_id request)
          (\<lambda>_. session\<lparr> cs_end_time := Some now,
                         cs_total_blinks := ser_total_blinks request,
                         cs_avg_blink_rate := ser_avg_blink_rate request,
                         cs_max_blink_rate := ser_max_blink_rate request,
                         cs_session_duration := ser_session_duration request,
                         cs_health_score := Some (calculate_health_score
                           (ser_avg_blink_rate request) (ser_session_duration request)) \<rparr>)
          (cloud_sessions cdb)"
      by (auto simp: end_session_def Let_def split: if_splits)
    show ?thesis
      unfolding c r table [symmetric]
      by (subst update_first_find_same [OF f]) (simp_all add: idm)
  qed
  from table s1 s2 close show ?thesis by blast
qed

theorem health_score_at_close_witness:
  "(case end_session 9000 end_request_one user_one db_one of
      Inl e \<Rightarrow> False
    | Inr (cdb', resp) \<Rightarrow> sr_health_score resp = Some 65)"
proof -
  obtain cdb' resp where ok: "end_session 9000 end_request_one user_one db_one = Inr (cdb', resp)"
    by (simp add: end_session_def end_request_one_def user_one_def db_one_def Let_def)
  from health_score_at_close [of 35 8000 9000 end_request_one user_one db_one cdb' resp] ok
  have "sr_health_score resp = Some (derived_score_spec 35 8000)"
    by (simp add: end_request_one_def)
  with ok show ?thesis
    by (simp add: derived_score_spec_def rate_deduction_def duration_deduction_def)
qed

subsection \<open>Ingest without a session\<close>

text \<open>
  C10. When the manager has no current session, \<open>log_blink\<close> returns at once and
  normally: the returned manager is the given one with one warning added to the log, so
  nothing is enqueued and no session aggregate is written.
\<close>

theorem log_blink_without_session:
  "current_session_id m = None \<Longrightarrow>
     log_blink fl db_ok now blink_count blink_rate eye_aspect_ratio m
       = (m\<lparr> logged := logged m @ [(WARNING, ''No active session for blink logging'')] \<rparr>,
          Inr ())"
  by (simp add: log_blink_def logger_def)

theorem log_blink_without_session_witness:
  "current_session_id fresh_manager = None
   \<and> blink_queue (fst (log_blink exact_arith True 5 3 17 None fresh_manager))
       = blink_queue fresh_manager
   \<and> db (fst (log_blink exact_arith True 5 3 17 None fresh_manager)) = db fresh_manager
   \<and> snd (log_blink exact_arith True 5 3 17 None fresh_manager) = Inr ()"
proof -
  have h: "current_session_id fresh_manager = None"
    by (simp add: fresh_manager_def init_manager_def logger_def)
  show ?thesis
    using h log_blink_without_session [OF h, of exact_arith True 5 3 17 None] by simp
qed

subsection \<open>Helper facts about the upload\<close>

lemma and_then_simps [simp]:
  "and_then (Inr x) f = f x"
  "and_then (Inl e) f = Inl e"
  by (simp_all add: and_then_def)

lemma and_then_Inr:
  "and_then r f = Inr y \<longleftrightarrow> (\<exists>x. r = Inr x \<and> f x = Inr y)"
  by (cases r) simp_all

lemma if_less_max: "(if (a::'a::linorder) < b then b else a) = max a b"
  by (auto simp: max_def)

lemma py_max_Some:
  "py_max (Some c) (map Some cs) = Inr (Some (fold max cs c))"
proof (induction cs arbitrary: c)
  case Nil
  show ?case by simp
next
  case (Cons b cs)
  have "py_max (Some c) (map Some (b # cs)) = py_max (Some (max c b)) (map Some cs)"
    by (simp only: list.map py_max.simps prod.case option.case if_less_max)
  also have "\<dots> = Inr (Some (fold max cs (max c b)))"
    by (rule Cons.IH)
  finally show ?case by (simp add: max.commute)
qed

lemma py_max_Max:
  "py_max (Some c) (map Some cs) = Inr (Some (Max (set (c # cs))))"
  by (simp only: py_max_Some Max.set_eq_fold)

lemma py_max_Inl: "py_max m xs = Inl e \<Longrightarrow> e = TypeError"
  by (induction xs arbitrary: m) (auto split: option.splits)

lemma py_max_error:
  "m = None \<or> list_ex (\<lambda>x. x = None) xs \<Longrightarrow> xs \<noteq> [] \<Longrightarrow> py_max m xs = Inl TypeError"
proof (induction xs arbitrary: m)
  case Nil
  then show ?case by simp
next
  case (Cons x xs)
  show ?case
  proof (cases m)
    case None
    then show ?thesis by simp
  next
    case (Some a)
    show ?thesis
    proof (cases x)
      case None
      with Some show ?thesis by simp
    next
      case (Some b)
      with Cons.prems \<open>m = Some a\<close> have ex: "list_ex (\<lambda>x. x = None) xs" by simp
      then have ne: "xs \<noteq> []" by auto
      from Cons.IH [of "Some (if b > a then b else a)"] ex ne
      have "py_max (Some (if b > a then b else a)) xs = Inl TypeError" by simp
      with Some \<open>m = Some a\<close> show ?thesis by simp
    qed
  qed
qed

lemma get_blink_count_valid:
  "dp_blink_count d \<noteq> Null \<Longrightarrow> get_blink_count d = Some (point_count d)"
  "dp_blink_count d = Null \<Longrightarrow> get_blink_count d = None"
  by (simp_all add: get_blink_count_def point_count_def split: json_value.splits)

lemma get_blink_rate_valid:
  "dp_blink_rate d \<noteq> Null \<Longrightarrow> get_blink_rate d = Some (point_rate d)"
  "dp_blink_rate d = Null \<Longrightarrow> get_blink_rate d = None"
  by (simp_all add: get_blink_rate_def point_rate_def split: json_value.splits)

lemma valid_points_Cons [simp]:
  "valid_points (d # ds) \<longleftrightarrow>
     dp_blink_count d \<noteq> Null \<and> dp_blink_rate d \<noteq> Null \<and> valid_points ds"
  by (simp add: valid_points_def)

lemma valid_points_Nil [simp]: "valid_points []"
  by (simp add: valid_points_def)

lemma valid_points_maps:
  "valid_points ds \<Longrightarrow> map get_blink_count ds = map Some (map point_count ds)"
  "valid_points ds \<Longrightarrow> map get_blink_rate ds = map Some (map point_rate ds)"
  by (induction ds) (simp_all add: get_blink_count_valid get_blink_rate_valid)

text \<open>The aggregates of a batch of data points without a null.\<close>

lemma batch_total_blinks_valid:
  assumes "valid_points (d # ds)"
  shows "batch_total_blinks d ds = Inr (Some (Max (set (map point_count (d # ds)))))"
proof -
  from assms have "get_blink_count d = Some (point_count d)"
    and "map get_blink_count ds = map Some (map point_count ds)"
    by (simp_all add: get_blink_count_valid valid_points_maps)
  then have "batch_total_blinks d ds = py_max (Some (point_count d)) (map Some (map point_count ds))"
    by (simp only: batch_total_blinks_def)
  also have "\<dots> = Inr (Some (Max (set (point_count d # map point_count ds))))"
    by (rule py_max_Max)
  finally show ?thesis by simp
qed

lemma batch_max_blink_rate_valid:
  assumes "valid_points (d # ds)"
  shows "batch_max_blink_rate d ds = Inr (Some (Max (set (map point_rate (d # ds)))))"
proof -
  from assms have "get_blink_rate d = Some (point_rate d)"
    and "map get_blink_rate ds = map Some (map point_rate ds)"
    by (simp_all add: get_blink_rate_valid valid_points_maps)
  then have "batch_max_blink_rate d ds = py_max (Some (point_rate d)) (map Some (map point_rate ds))"
    by (simp only: batch_max_blink_rate_def)
  also have "\<dots> = Inr (Some (Max (set (point_rate d # map point_rate ds))))"
    by (rule py_max_Max)
  finally show ?thesis by simp
qed

lemma py_sum_valid:
  assumes "valid_points ds"
  shows "py_sum fl (map get_blink_rate ds) = Inr (float_sum fl (map point_rate ds))"
proof -
  from assms have m: "map get_blink_rate ds = map Some (map point_rate ds)"
    by (rule valid_points_maps)
  have a: "list_all (\<lambda>x. x \<noteq> None) (map Some xs)" for xs :: "rat list"
    by (induction xs) simp_all
  have b: "map the (map Some xs) = xs" for xs :: "rat list"
    by (induction xs) simp_all
  show ?thesis
    unfolding py_sum_def m by (simp only: a b if_True)
qed

lemma py_sum_invalid:
  "list_ex (\<lambda>d. dp_blink_rate d = Null) ds \<Longrightarrow> py_sum fl (map get_blink_rate ds) = Inl TypeError"
  by (fastforce simp: py_sum_def list_all_iff list_ex_iff dest: get_blink_rate_valid(2))

lemma batch_avg_blink_rate_valid:
  "valid_points (d # ds) \<Longrightarrow>
     batch_avg_blink_rate fl d ds
       = Inr (float_div fl (float_sum fl (map point_rate (d # ds))) (of_nat (length (d # ds))))"
  unfolding batch_avg_blink_rate_def
  by (subst py_sum_valid) simp_all

lemma py_max2_max: "py_max2 a (Some b) = Inr (max a b)"
  by (simp only: py_max2_def option.case if_less_max)

lemma merge_existing_valid:
  assumes "valid_points (sp_blink_data p)"
  shows "merge_existing fl p r = Inr (merged_session fl r p)"
proof -
  have e: "(case (sp_end_time p, cs_end_time r) of
               (Some end_time, None) \<Rightarrow> r\<lparr> cs_end_time := Some end_time \<rparr>
             | _ \<Rightarrow> r) = r\<lparr> cs_end_time := merged_end_time r p \<rparr>"
    by (simp add: merged_end_time_def split: option.splits)
  show ?thesis
  proof (cases "sp_blink_data p")
    case Nil
    then show ?thesis
      unfolding merge_existing_def Let_def e by (simp add: merged_session_def)
  next
    case (Cons d ds)
    with assms have v: "valid_points (d # ds)" by simp
    show ?thesis
      unfolding merge_existing_def Let_def e Cons list.case
        batch_total_blinks_valid [OF v] batch_avg_blink_rate_valid [OF v]
        batch_max_blink_rate_valid [OF v] and_then_simps
      by (simp add: merged_session_def Cons py_max2_max)
  qed
qed

lemma merge_existing_invalid:
  assumes "\<not> valid_points (sp_blink_data p)"
  shows "merge_existing fl p r = Inl TypeError"
proof -
  from assms obtain d ds where c: "sp_blink_data p = d # ds"
    by (cases "sp_blink_data p") auto
  let ?r = "(case (sp_end_time p, cs_end_time r) of
               (Some end_time, None) \<Rightarrow> r\<lparr> cs_end_time := Some end_time \<rparr>
             | _ \<Rightarrow> r)"
  have m: "merge_existing fl p r =
           and_then (batch_total_blinks d ds) (\<lambda>total_blinks.
             and_then (batch_avg_blink_rate fl d ds) (\<lambda>avg_blink_rate.
             and_then (batch_max_blink_rate d ds) (\<lambda>max_blink_rate.
             and_then (py_max2 (cs_total_blinks ?r) total_blinks) (\<lambda>new_total.
             and_then (py_max2 (cs_avg_blink_rate ?r) (Some avg_blink_rate))
               (\<lambda>new_avg.
             and_then (py_max2 (cs_max_blink_rate ?r) max_blink_rate) (\<lambda>new_max.
               Inr (?r\<lparr> cs_total_blinks := new_total,
                                       cs_avg_blink_rate := new_avg,
                                       cs_max_blink_rate := new_max \<rparr>)))))))"
    by (simp add: merge_existing_def Let_def c)
  show ?thesis
  proof (cases "batch_total_blinks d ds")
    case (Inl e)
    then have "e = TypeError" by (auto simp: batch_total_blinks_def dest: py_max_Inl)
    with Inl m show ?thesis by simp
  next
    case (Inr total)
    show ?thesis
    proof (cases "list_ex (\<lambda>d. dp_blink_rate d = Null) (d # ds)")
      case True
      then have "batch_avg_blink_rate fl d ds = Inl TypeError"
        unfolding batch_avg_blink_rate_def by (subst py_sum_invalid) simp_all
      with Inr m show ?thesis by simp
    next
      case False
      then have rates: "list_all (\<lambda>d. dp_blink_rate d \<noteq> Null) (d # ds)"
        by (simp add: list_all_iff list_ex_iff)
      with assms c have counts: "list_ex (\<lambda>d. dp_blink_count d = Null) (d # ds)"
        by (auto simp: valid_points_def list_all_iff list_ex_iff)
      have none: "get_blink_count d = None \<or> list_ex (\<lambda>x. x = None) (map get_blink_count ds)"
      proof (cases "dp_blink_count d = Null")
        case True
        then show ?thesis by (simp add: get_blink_count_valid)
      next
        case False
        with counts obtain x where "x \<in> set ds" "dp_blink_count x = Null"
          by (auto simp: list_ex_iff)
        then have "get_blink_count x = None" "x \<in> set ds"
          by (simp_all add: get_blink_count_valid)
        then have "list_ex (\<lambda>x. x = None) (map get_blink_count ds)"
          unfolding list_ex_iff by force
        then show ?thesis by simp
      qed
      have "ds = []"
      proof (rule ccontr)
        assume "ds \<noteq> []"
        with py_max_error [OF none] have "batch_total_blinks d ds = Inl TypeError"
          by (simp add: batch_total_blinks_def)
        with Inr show False by simp
      qed
      with none Inr have t: "total = None"
        by (simp add: batch_total_blinks_def)
      from rates have "py_sum fl (map get_blink_rate (d # ds))
          = Inr (float_sum fl (map (the \<circ> get_blink_rate) (d # ds)))"
        by (auto simp: py_sum_def list_all_iff get_blink_rate_valid)
      then obtain a where a: "batch_avg_blink_rate fl d ds = Inr a"
        by (simp add: batch_avg_blink_rate_def)
      from rates \<open>ds = []\<close> obtain mx where mx: "batch_max_blink_rate d ds = Inr mx"
        by (simp add: batch_max_blink_rate_def)
      from m Inr t a mx show ?thesis
        by (simp add: py_max2_def)
    qed
  qed
qed

lemma process_blink_data_loop_valid:
  "valid_points ds \<Longrightarrow>
   process_blink_data_loop now sid ds (cdb, n)
     = Inr (cdb\<lparr> session_data_rows := session_data_rows cdb
                 @ map (\<lambda>d. make_session_data now sid d (point_count d) (point_rate d)) ds \<rparr>,
            n + length ds)"
  by (induction ds arbitrary: cdb n)
    (simp_all add: get_blink_count_valid get_blink_rate_valid)

lemma process_blink_data_loop_invalid:
  "\<not> valid_points ds \<Longrightarrow> process_blink_data_loop now sid ds (cdb, n) = Inl IntegrityError"
proof (induction ds arbitrary: cdb n)
  case Nil
  then show ?case by simp
next
  case (Cons d ds)
  show ?case
  proof (cases "dp_blink_count d = Null \<or> dp_blink_rate d = Null")
    case True
    then show ?thesis
      by (auto simp: get_blink_count_valid get_blink_rate_valid split: option.splits)
  next
    case False
    with Cons.prems have "\<not> valid_points ds" by simp
    from Cons.IH [OF this] False show ?thesis
      by (simp add: get_blink_count_valid get_blink_rate_valid)
  qed
qed

lemma process_blink_data_eq:
  "process_blink_data now cdb sid ds
     = (if valid_points ds
        then Inr (cdb\<lparr> session_data_rows := session_data_rows cdb
                 @ map (\<lambda>d. make_session_data now sid d (point_count d) (point_rate d)) ds \<rparr>,
                  length ds)
        else Inl IntegrityError)"
  by (simp add: process_blink_data_def process_blink_data_loop_valid
      process_blink_data_loop_invalid)

text \<open>The session that the upload creates from data points without a null.\<close>

lemma create_cloud_session_valid:
  assumes "valid_points (sp_blink_data p)"
  shows "\<exists>s. create_cloud_session fl now i owner t p = Inr s
           \<and> cs_id s = i \<and> cs_user_id s = owner \<and> cs_start_time s = t
           \<and> cs_end_time s = sp_end_time p \<and> cs_local_session_id s = sp_local_id p"
proof (cases "sp_blink_data p")
  case Nil
  then show ?thesis by (simp add: create_cloud_session_def Let_def)
next
  case (Cons d ds)
  with assms have v: "valid_points (d # ds)" by simp
  show ?thesis
    unfolding create_cloud_session_def Let_def Cons list.case
      batch_total_blinks_valid [OF v] batch_avg_blink_rate_valid [OF v]
      batch_max_blink_rate_valid [OF v] and_then_simps
    by simp
qed

lemma create_cloud_session_invalid:
  assumes "\<not> valid_points (sp_blink_data p)"
  shows "\<exists>e. create_cloud_session fl now i owner t p = Inl e"
proof -
  from assms obtain d ds where c: "sp_blink_data p = d # ds"
    by (cases "sp_blink_data p") auto
  let ?s = "\<lparr> cs_id = i, cs_user_id = owner, cs_local_session_id = sp_local_id p,
              cs_start_time = t, cs_end_time = sp_end_time p,
              cs_total_blinks = 0, cs_avg_blink_rate = 0, cs_max_blink_rate = 0,
              cs_session_duration = 0, cs_device_info = None, cs_health_score = None,
              cs_created_at = now \<rparr>"
  have m: "create_cloud_session fl now i owner t p =
           and_then (batch_total_blinks d ds) (\<lambda>total_blinks.
             and_then (batch_avg_blink_rate fl d ds) (\<lambda>avg_blink_rate.
             and_then (batch_max_blink_rate d ds) (\<lambda>max_blink_rate.
               case (total_blinks, max_blink_rate) of
                 (Some total_blinks, Some max_blink_rate) \<Rightarrow>
                   Inr (?s\<lparr> cs_total_blinks := total_blinks,
                              cs_avg_blink_rate := avg_blink_rate,
                              cs_max_blink_rate := max_blink_rate \<rparr>)
               | _ \<Rightarrow> Inl IntegrityError)))"
    by (simp add: create_cloud_session_def Let_def c)
  show ?thesis
  proof (cases "batch_total_blinks d ds")
    case (Inl e)
    with m show ?thesis by simp
  next
    case (Inr total)
    show ?thesis
    proof (cases "list_ex (\<lambda>d. dp_blink_rate d = Null) (d # ds)")
      case True
      then have "batch_avg_blink_rate fl d ds = Inl TypeError"
        unfolding batch_avg_blink_rate_def by (subst py_sum_invalid) simp_all
      with Inr m show ?thesis by simp
    next
      case False
      then have rates: "list_all (\<lambda>d. dp_blink_rate d \<noteq> Null) (d # ds)"
        by (simp add: list_all_iff list_ex_iff)
      with assms c have counts: "list_ex (\<lambda>d. dp_blink_count d = Null) (d # ds)"
        by (auto simp: valid_points_def list_all_iff list_ex_iff)
      have none: "get_blink_count d = None \<or> list_ex (\<lambda>x. x = None) (map get_blink_count ds)"
      proof (cases "dp_blink_count d = Null")
        case True
        then show ?thesis by (simp add: get_blink_count_valid)
      next
        case False
        with counts obtain x where "x \<in> set ds" "dp_blink_count x = Null"
          by (auto simp: list_ex_iff)
        then have "get_blink_count x = None" "x \<in> set ds"
          by (simp_all add: get_blink_count_valid)
        then have "list_ex (\<lambda>x. x = None) (map get_blink_count ds)"
          unfolding list_ex_iff by force
        then show ?thesis by simp
      qed
      have "ds = []"
      proof (rule ccontr)
        assume "ds \<noteq> []"
        with py_max_error [OF none] have "batch_total_blinks d ds = Inl TypeError"
          by (simp add: batch_total_blinks_def)
        with Inr show False by simp
      qed
      with none Inr have t: "total = None"
        by (simp add: batch_total_blinks_def)
      show ?thesis
      proof (cases "batch_avg_blink_rate fl d ds")
        case (Inl e)
        with Inr m show ?thesis by simp
      next
        case a: (Inr a)
        show ?thesis
        proof (cases "batch_max_blink_rate d ds")
          case (Inl e)
          with Inr a m show ?thesis by simp
        next
          case mx: (Inr mx)
          with Inr a m t show ?thesis by simp
        qed
      qed
    qed
  qed
qed

lemma merged_session_keys [simp]:
  "cs_user_id (merged_session fl r p) = cs_user_id r"
  "cs_start_time (merged_session fl r p) = cs_start_time r"
  "cs_id (merged_session fl r p) = cs_id r"
  by (simp_all add: merged_session_def)

lemma find_update_first_keys:
  assumes "\<And>x. Q (f x) = Q x" "\<And>x. g (f x) = g x"
  shows "map_option g (find Q (update_first P f xs)) = map_option g (find Q xs)"
  using assms by (induction xs) auto

lemma update_first_const:
  "find P xs = Some x \<Longrightarrow> update_first P f xs = update_first P (\<lambda>_. f x) xs"
  by (induction xs) (auto split: if_splits)

lemma session_id_for_update:
  "session_id_for owner t
     (cdb\<lparr> cloud_sessions := update_first P (\<lambda>s. merged_session fl s p) (cloud_sessions cdb) \<rparr>)
     = session_id_for owner t cdb"
  unfolding session_id_for_def
  by (simp add: find_update_first_keys)

lemma session_id_for_rows [simp]:
  "session_id_for owner t (cdb\<lparr> session_data_rows := rows \<rparr>) = session_id_for owner t cdb"
  by (simp add: session_id_for_def)

lemma length_update_first [simp]: "length (update_first P f xs) = length xs"
  by (induction xs) auto

lemma find_append_Some: "find P xs = Some x \<Longrightarrow> find P (xs @ ys) = Some x"
  by (induction xs) (auto split: if_splits)

lemma find_append_None: "find P xs = None \<Longrightarrow> find P (xs @ ys) = find P ys"
  by (induction xs) (auto split: if_splits)

text \<open>One step of the upload, described by cases.\<close>

lemma upload_session_skip:
  "sp_start_time p = None \<Longrightarrow> upload_session fl now owner p st = Inr st"
  by (cases st) (simp add: upload_session_def)

lemma upload_session_matched:
  assumes "sp_start_time p = Some t"
    and "find (\<lambda>s. cs_user_id s = owner \<and> cs_start_time s = t) (cloud_sessions cdb) = Some r"
  shows "upload_session fl now owner p (cdb, n, k)
    = (if valid_points (sp_blink_data p)
       then Inr (cdb\<lparr> cloud_sessions :=
                        update_first (\<lambda>s. cs_user_id s = owner \<and> cs_start_time s = t)
                          (\<lambda>s. merged_session fl s p) (cloud_sessions cdb),
                      session_data_rows := session_data_rows cdb
                        @ map (\<lambda>d. make_session_data now (cs_id r) d (point_count d) (point_rate d))
                            (sp_blink_data p) \<rparr>,
                 n, k + length (sp_blink_data p))
       else Inl TypeError)"
proof (cases "valid_points (sp_blink_data p)")
  case True
  from update_first_const [OF assms(2), of "\<lambda>s. merged_session fl s p"]
  have u: "update_first (\<lambda>s. cs_user_id s = owner \<and> cs_start_time s = t)
             (\<lambda>_. merged_session fl r p) (cloud_sessions cdb)
           = update_first (\<lambda>s. cs_user_id s = owner \<and> cs_start_time s = t)
             (\<lambda>s. merged_session fl s p) (cloud_sessions cdb)"
    by simp
  from True assms show ?thesis
    by (simp add: upload_session_def Let_def merge_existing_valid process_blink_data_eq u)
next
  case False
  with assms show ?thesis
    by (simp add: upload_session_def Let_def merge_existing_invalid)
qed

lemma upload_session_created:
  assumes "sp_start_time p = Some t"
    and "find (\<lambda>s. cs_user_id s = owner \<and> cs_start_time s = t) (cloud_sessions cdb) = None"
  shows "upload_session fl now owner p (cdb, n, k)
    = (if valid_points (sp_blink_data p)
       then Inr (cdb\<lparr> cloud_sessions := cloud_sessions cdb
                        @ [projr (create_cloud_session fl now (next_uuid cdb) owner t p)],
                      next_uuid := Suc (next_uuid cdb),
                      session_data_rows := session_data_rows cdb
                        @ map (\<lambda>d. make_session_data now (next_uuid cdb) d
                                       (point_count d) (point_rate d))
                            (sp_blink_data p) \<rparr>,
                 Suc n, k + length (sp_blink_data p))
       else Inl (projl (create_cloud_session fl now (next_uuid cdb) owner t p)))"
proof (cases "valid_points (sp_blink_data p)")
  case True
  from create_cloud_session_valid [OF True, of fl now "next_uuid cdb" owner t]
  obtain s where s: "create_cloud_session fl now (next_uuid cdb) owner t p = Inr s" by blast
  from True assms s show ?thesis
    by (simp add: upload_session_def Let_def process_blink_data_eq)
next
  case False
  from create_cloud_session_invalid [OF False, of fl now "next_uuid cdb" owner t]
  obtain e where e: "create_cloud_session fl now (next_uuid cdb) owner t p = Inl e" by blast
  from False assms e show ?thesis
    by (simp add: upload_session_def Let_def)
qed

lemma created_session_keys:
  assumes "valid_points (sp_blink_data p)"
  shows "cs_user_id (projr (create_cloud_session fl now i owner t p)) = owner"
    "cs_start_time (projr (create_cloud_session fl now i owner t p)) = t"
    "cs_id (projr (create_cloud_session fl now i owner t p)) = i"
    "cs_end_time (projr (create_cloud_session fl now i owner t p)) = sp_end_time p"
    "cs_local_session_id (projr (create_cloud_session fl now i owner t p)) = sp_local_id p"
  using create_cloud_session_valid [OF assms, of fl now i owner t] by auto

lemma session_id_for_find:
  "session_id_for owner t cdb = Some i \<Longrightarrow>
     \<exists>r. find (\<lambda>s. cs_user_id s = owner \<and> cs_start_time s = t) (cloud_sessions cdb) = Some r
          \<and> cs_id r = i"
  "session_id_for owner t cdb = None \<Longrightarrow>
     find (\<lambda>s. cs_user_id s = owner \<and> cs_start_time s = t) (cloud_sessions cdb) = None"
  by (auto simp: session_id_for_def)

lemma upload_session_stable:
  assumes "session_id_for owner t cdb = Some i"
    and "upload_session fl now owner p (cdb, n, k) = Inr (cdb', n', k')"
  shows "session_id_for owner t cdb' = Some i"
proof (cases "sp_start_time p")
  case None
  with assms show ?thesis by (simp add: upload_session_skip)
next
  case (Some t')
  show ?thesis
  proof (cases "session_id_for owner t' cdb")
    case None
    note nf = session_id_for_find(2) [OF None]
    from assms(2) have "cloud_sessions cdb' = cloud_sessions cdb
                @ [projr (create_cloud_session fl now (next_uuid cdb) owner t' p)]"
      unfolding upload_session_created [OF Some nf] by (auto split: if_splits)
    with assms(1) show ?thesis
      by (auto simp: session_id_for_def find_append_Some)
  next
    case (Some j)
    from session_id_for_find(1) [OF Some] obtain r where
      f: "find (\<lambda>s. cs_user_id s = owner \<and> cs_start_time s = t') (cloud_sessions cdb) = Some r"
      by blast
    from assms(2) have "cloud_sessions cdb'
        = update_first (\<lambda>s. cs_user_id s = owner \<and> cs_start_time s = t')
            (\<lambda>s. merged_session fl s p) (cloud_sessions cdb)"
      unfolding upload_session_matched [OF \<open>sp_start_time p = Some t'\<close> f]
      by (auto split: if_splits)
    with assms(1) show ?thesis
      by (simp add: session_id_for_def find_update_first_keys)
  qed
qed

lemma upload_session_rows:
  assumes "sp_start_time p = Some t"
    and "upload_session fl now owner p (cdb, n, k) = Inr (cdb', n', k')"
  shows "\<exists>i. session_id_for owner t cdb' = Some i
           \<and> session_data_rows cdb' = session_data_rows cdb
               @ map (\<lambda>d. make_session_data now i d (point_count d) (point_rate d))
                   (sp_blink_data p)
           \<and> k' = k + length (sp_blink_data p)"
proof (cases "session_id_for owner t cdb")
  case None
  note nf = session_id_for_find(2) [OF None]
  from assms(2) have v: "valid_points (sp_blink_data p)"
    unfolding upload_session_created [OF assms(1) nf] by (auto split: if_splits)
  from assms(2) v have
    c: "cloud_sessions cdb' = cloud_sessions cdb
          @ [projr (create_cloud_session fl now (next_uuid cdb) owner t p)]"
    and r: "session_data_rows cdb' = session_data_rows cdb
          @ map (\<lambda>d. make_session_data now (next_uuid cdb) d (point_count d) (point_rate d))
              (sp_blink_data p)"
    and k: "k' = k + length (sp_blink_data p)"
    unfolding upload_session_created [OF assms(1) nf] by auto
  have "session_id_for owner t cdb' = Some (next_uuid cdb)"
    unfolding session_id_for_def c find_append_None [OF nf]
    by (simp add: created_session_keys [OF v])
  with r k show ?thesis by blast
next
  case (Some i)
  from session_id_for_find(1) [OF Some] obtain r where
    f: "find (\<lambda>s. cs_user_id s = owner \<and> cs_start_time s = t) (cloud_sessions cdb) = Some r"
    and i: "cs_id r = i" by blast
  from assms(2) Some i show ?thesis
    unfolding upload_session_matched [OF assms(1) f]
    by (auto simp: session_id_for_update split: if_splits)
qed

lemma uploaded_rows_Cons:
  "uploaded_rows now owner cdb (p # ps) =
     (case sp_start_time p of None \<Rightarrow> []
      | Some t \<Rightarrow> (case session_id_for owner t cdb of None \<Rightarrow> []
                    | Some sid \<Rightarrow>
                        map (\<lambda>d. make_session_data now sid d (point_count d) (point_rate d))
                          (sp_blink_data p)))
     @ uploaded_rows now owner cdb ps"
  by (simp add: uploaded_rows_def)

lemma upload_sessions_Cons:
  "upload_sessions fl now owner (p # ps) st = Inr st' \<longleftrightarrow>
     (\<exists>st1. upload_session fl now owner p st = Inr st1
            \<and> upload_sessions fl now owner ps st1 = Inr st')"
  by (simp add: and_then_Inr)

lemma upload_sessions_stable:
  "session_id_for owner t cdb = Some i \<Longrightarrow>
   upload_sessions fl now owner ps (cdb, n, k) = Inr (cdb', n', k') \<Longrightarrow>
   session_id_for owner t cdb' = Some i"
proof (induction ps arbitrary: cdb n k)
  case Nil
  then show ?case by simp
next
  case (Cons p ps)
  from Cons.prems(2) obtain cdb1 n1 k1 where
    s: "upload_session fl now owner p (cdb, n, k) = Inr (cdb1, n1, k1)"
    and r: "upload_sessions fl now owner ps (cdb1, n1, k1) = Inr (cdb', n', k')"
    unfolding upload_sessions_Cons by (metis prod_cases3)
  from Cons.IH [OF upload_session_stable [OF Cons.prems(1) s] r] show ?case .
qed

lemma upload_sessions_first_run:
  "upload_sessions fl now owner ps (cdb, n, k) = Inr (cdb', n', k') \<Longrightarrow>
     session_data_rows cdb' = session_data_rows cdb @ uploaded_rows now owner cdb' ps
     \<and> k' = k + count_points ps
     \<and> all_known owner cdb' ps"
proof (induction ps arbitrary: cdb n k)
  case Nil
  then show ?case by (simp add: uploaded_rows_def count_points_def all_known_def)
next
  case (Cons p ps)
  from Cons.prems obtain cdb1 n1 k1 where
    s: "upload_session fl now owner p (cdb, n, k) = Inr (cdb1, n1, k1)"
    and r: "upload_sessions fl now owner ps (cdb1, n1, k1) = Inr (cdb', n', k')"
    unfolding upload_sessions_Cons by (metis prod_cases3)
  note ih = Cons.IH [OF r]
  show ?case
  proof (cases "sp_start_time p")
    case None
    with s have "cdb1 = cdb" "k1 = k" by (simp_all add: upload_session_skip)
    with ih None show ?thesis
      by (simp add: uploaded_rows_Cons count_points_def all_known_def)
  next
    case (Some t)
    from upload_session_rows [OF Some s] obtain i where
      i: "session_id_for owner t cdb1 = Some i"
      and rows: "session_data_rows cdb1 = session_data_rows cdb
          @ map (\<lambda>d. make_session_data now i d (point_count d) (point_rate d)) (sp_blink_data p)"
      and k1: "k1 = k + length (sp_blink_data p)" by blast
    from upload_sessions_stable [OF i r] have i': "session_id_for owner t cdb' = Some i" .
    from ih rows k1 i' Some show ?thesis
      by (simp add: uploaded_rows_Cons count_points_def all_known_def)
  qed
qed

lemma upload_sessions_second_run:
  "all_known owner cdb ps \<Longrightarrow>
   upload_sessions fl now owner ps (cdb, n, k) = Inr (cdb', n', k') \<Longrightarrow>
     n' = n \<and> length (cloud_sessions cdb') = length (cloud_sessions cdb)
     \<and> (\<forall>t. session_id_for owner t cdb' = session_id_for owner t cdb)"
proof (induction ps arbitrary: cdb n k)
  case Nil
  then show ?case by simp
next
  case (Cons p ps)
  from Cons.prems(2) obtain cdb1 n1 k1 where
    s: "upload_session fl now owner p (cdb, n, k) = Inr (cdb1, n1, k1)"
    and r: "upload_sessions fl now owner ps (cdb1, n1, k1) = Inr (cdb', n', k')"
    unfolding upload_sessions_Cons by (metis prod_cases3)
  have step: "n1 = n \<and> length (cloud_sessions cdb1) = length (cloud_sessions cdb)
     \<and> (\<forall>t. session_id_for owner t cdb1 = session_id_for owner t cdb)"
  proof (cases "sp_start_time p")
    case None
    with s show ?thesis by (simp add: upload_session_skip)
  next
    case (Some t)
    with Cons.prems(1) obtain i where i: "session_id_for owner t cdb = Some i"
      by (auto simp: all_known_def)
    from session_id_for_find(1) [OF i] obtain r where
      f: "find (\<lambda>s. cs_user_id s = owner \<and> cs_start_time s = t) (cloud_sessions cdb) = Some r"
      by blast
    from s show ?thesis
      unfolding upload_session_matched [OF Some f]
      by (auto simp: session_id_for_update split: if_splits)
  qed
  with Cons.prems(1) have "all_known owner cdb1 ps"
    by (simp add: all_known_def cong: option.case_cong)
  from Cons.IH [OF this r] step show ?case by simp
qed

lemma uploaded_rows_cong:
  "(\<forall>t. session_id_for owner t cdb' = session_id_for owner t cdb) \<Longrightarrow>
     uploaded_rows now owner cdb' ps = uploaded_rows now owner cdb ps"
  by (simp add: uploaded_rows_def cong: option.case_cong)

lemma upload_local_data_Inr:
  "upload_local_data fl now request current_user cdb = Inr (cdb', response) \<longleftrightarrow>
     sur_user_id request = u_id current_user
     \<and> (\<exists>n k. upload_sessions fl now (u_id current_user) (sur_sessions request) (cdb, 0, 0)
                 = Inr (cdb', n, k)
              \<and> response = \<lparr> synced_sessions = n, synced_data_points = k, conflicts = [],
                              status = ''success'' \<rparr>)"
  by (auto simp: upload_local_data_def Let_def split: sum.splits)

lemma once_eq:
  "upload_local_data exact_arith 5000 upload_one user_one db_one = Inr once"
  by (simp add: once_def upload_local_data_def upload_one_def user_one_def db_one_def
      upload_session_def merge_existing_def process_blink_data_def point_def Let_def
      batch_total_blinks_def batch_avg_blink_rate_def batch_max_blink_rate_def py_sum_def
      py_max2_def get_blink_count_def get_blink_rate_def exact_arith_def)

subsection \<open>Merging a matched session\<close>




subsection \<open>Conflicts\<close>

text \<open>
  C9. Every upload that answers reports an empty list of conflicts: the upload never
  calls \<open>resolve_session_conflicts\<close>. This holds also when a local and a remote
  session with the same start time are closed at different times, a case in which that
  helper would report a conflict.
\<close>

theorem upload_conflicts_empty:
  "upload_local_data fl now request current_user cdb = Inr (cdb', response)
     \<Longrightarrow> conflicts response = []"
  by (auto simp: upload_local_data_Inr)

theorem upload_conflicts_empty_witness:
  "(case upload_local_data exact_arith 5000 upload_one user_one db_closed of
      Inl e \<Rightarrow> False
    | Inr (cdb', response) \<Rightarrow> conflicts response = [])
   \<and> resolve_session_conflicts db_closed 1 (sur_sessions upload_one) = [(3, 7)]
   \<and> map cs_end_time (cloud_sessions db_closed) = [Some 2000]
   \<and> map sp_end_time (sur_sessions upload_one) = [Some 3000]"
proof -
  let ?x = "projr (upload_local_data exact_arith 5000 upload_one user_one db_closed)"
  have ok: "upload_local_data exact_arith 5000 upload_one user_one db_closed
              = Inr (fst ?x, snd ?x)"
    by (simp add: upload_local_data_def upload_one_def user_one_def db_closed_def db_one_def
      upload_session_def merge_existing_def process_blink_data_def point_def Let_def
      batch_total_blinks_def batch_avg_blink_rate_def batch_max_blink_rate_def py_sum_def
      py_max2_def get_blink_count_def get_blink_rate_def exact_arith_def)
  from upload_conflicts_empty [OF ok] have c: "conflicts (snd ?x) = []" .
  have 1: "(case upload_local_data exact_arith 5000 upload_one user_one db_closed of
      Inl e \<Rightarrow> False
    | Inr (cdb', response) \<Rightarrow> conflicts response = [])"
    by (subst ok) (simp add: c split_beta)
  have 2: "resolve_session_conflicts db_closed 1 (sur_sessions upload_one) = [(3, 7)]
   \<and> map cs_end_time (cloud_sessions db_closed) = [Some 2000]
   \<and> map sp_end_time (sur_sessions upload_one) = [Some 3000]"
    by (simp add: db_closed_def db_one_def upload_one_def)
  from 1 2 show ?thesis by blast
qed

subsection \<open>Uploading the same data twice\<close>

lemmas upload_eval =
  upload_local_data_def upload_session_def merge_existing_def create_cloud_session_def
  process_blink_data_def batch_total_blinks_def batch_avg_blink_rate_def
  batch_max_blink_rate_def py_sum_def py_max2_def get_blink_count_def get_blink_rate_def
  exact_arith_def point_def user_one_def Let_def

lemma once_db:
  "fst once = \<lparr> cloud_sessions =
      [\<lparr> cs_id = 7, cs_user_id = 1, cs_local_session_id = None, cs_start_time = 1000,
         cs_end_time = Some 3000, cs_total_blinks = 40, cs_avg_blink_rate = 20,
         cs_max_blink_rate = 26, cs_session_duration = 0, cs_device_info = None,
         cs_health_score = None, cs_created_at = 1000 \<rparr>],
      session_data_rows =
        [make_session_data 5000 7 (point 1100 40 26) 40 26,
         make_session_data 5000 7 (point 1200 25 14) 25 14],
      next_uuid = 8 \<rparr>"
  by (simp add: once_def upload_one_def db_one_def upload_eval)

lemma twice_eq:
  "upload_local_data exact_arith 5000 upload_one user_one (fst once) = Inr twice"
  unfolding twice_def once_db by (simp add: upload_one_def upload_eval)

lemma twice_rows:
  "session_data_rows (fst twice) =
        [make_session_data 5000 7 (point 1100 40 26) 40 26,
         make_session_data 5000 7 (point 1200 25 14) 25 14,
         make_session_data 5000 7 (point 1100 40 26) 40 26,
         make_session_data 5000 7 (point 1200 25 14) 25 14]"
  unfolding twice_def once_db by (simp add: upload_one_def upload_eval)

text \<open>
  C2, as the code has it. When the same request is uploaded twice, the second run creates
  no session (\<open>synced_sessions\<close> is 0 and the number of remote sessions stays), and
  it appends every event again: it reports as many data points as the first run, one for
  each data point of a local session that has a start time, and the rows it appends are
  those of the first run, under the same remote sessions, stamped with the time of the
  second run.
\<close>

theorem upload_twice:
  assumes first: "upload_local_data fl now1 request current_user cdb0 = Inr (cdb1, response1)"
    and second: "upload_local_data fl now2 request current_user cdb1 = Inr (cdb2, response2)"
  shows "synced_sessions response2 = 0
    \<and> length (cloud_sessions cdb2) = length (cloud_sessions cdb1)
    \<and> synced_data_points response2 = synced_data_points response1
    \<and> synced_data_points response2 = count_points (sur_sessions request)
    \<and> session_data_rows cdb1
        = session_data_rows cdb0
          @ uploaded_rows now1 (u_id current_user) cdb1 (sur_sessions request)
    \<and> session_data_rows cdb2
        = session_data_rows cdb1
          @ uploaded_rows now2 (u_id current_user) cdb1 (sur_sessions request)"
proof -
  let ?o = "u_id current_user" and ?ps = "sur_sessions request"
  from first obtain n1 k1 where
    r1: "upload_sessions fl now1 ?o ?ps (cdb0, 0, 0) = Inr (cdb1, n1, k1)"
    and p1: "synced_data_points response1 = k1"
    by (auto simp: upload_local_data_Inr)
  from second obtain n2 k2 where
    r2: "upload_sessions fl now2 ?o ?ps (cdb1, 0, 0) = Inr (cdb2, n2, k2)"
    and p2: "synced_data_points response2 = k2" and s2: "synced_sessions response2 = n2"
    by (auto simp: upload_local_data_Inr)
  note a = upload_sessions_first_run [OF r1]
  note b = upload_sessions_first_run [OF r2]
  from a have known: "all_known ?o cdb1 ?ps" by simp
  note c = upload_sessions_second_run [OF known r2]
  from c have "uploaded_rows now2 ?o cdb2 ?ps = uploaded_rows now2 ?o cdb1 ?ps"
    by (intro uploaded_rows_cong) simp
  with a b c p1 p2 s2 show ?thesis by simp
qed

theorem upload_twice_witness:
  "upload_local_data exact_arith 5000 upload_one user_one db_one = Inr once
   \<and> upload_local_data exact_arith 5000 upload_one user_one (fst once) = Inr twice
   \<and> synced_sessions (snd twice) = 0
   \<and> synced_data_points (snd twice) = 2
   \<and> length (session_data_rows (fst twice)) = 4"
proof -
  have a: "upload_local_data exact_arith 5000 upload_one user_one db_one = Inr (fst once, snd once)"
    by (simp add: once_eq)
  have b: "upload_local_data exact_arith 5000 upload_one user_one (fst once)
             = Inr (fst twice, snd twice)"
    by (simp add: twice_eq)
  have c: "count_points (sur_sessions upload_one) = 2"
    by (simp add: count_points_def upload_one_def)
  have ids: "session_id_for (Suc 0) 1000 (fst once) = Some 7"
    unfolding once_db by (simp add: session_id_for_def)
  have d: "length (uploaded_rows 5000 1 (fst once) (sur_sessions upload_one)) = 2"
    using ids by (simp add: uploaded_rows_def upload_one_def)
  have e: "length (session_data_rows (fst once)) = 2"
    unfolding once_db by simp
  note t = upload_twice [OF a b]
  from t have "synced_sessions (snd twice) = 0" by simp
  moreover from t c have "synced_data_points (snd twice) = 2" by simp
  moreover from t d e have "length (session_data_rows (fst twice)) = 4"
    by (simp add: user_one_def)
  ultimately show ?thesis using once_eq twice_eq by simp
qed

text \<open>
  C2 as stated fails: uploading one session with two data points twice leaves each of the
  two event rows stored twice.
\<close>

theorem upload_twice_duplicates_events:
  "upload_local_data exact_arith 5000 upload_one user_one db_one = Inr once
   \<and> upload_local_data exact_arith 5000 upload_one user_one (fst once) = Inr twice
   \<and> session_data_rows (fst once)
       = [make_session_data 5000 7 (point 1100 40 26) 40 26,
          make_session_data 5000 7 (point 1200 25 14) 25 14]
   \<and> session_data_rows (fst twice)
       = [make_session_data 5000 7 (point 1100 40 26) 40 26,
          make_session_data 5000 7 (point 1200 25 14) 25 14,
          make_session_data 5000 7 (point 1100 40 26) 40 26,
          make_session_data 5000 7 (point 1200 25 14) 25 14]"
proof -
  have "session_data_rows (fst once)
       = [make_session_data 5000 7 (point 1100 40 26) 40 26,
          make_session_data 5000 7 (point 1200 25 14) 25 14]"
    unfolding once_db by simp
  with once_eq twice_eq twice_rows show ?thesis by simp
qed

subsection \<open>Helper facts about the local store\<close>

lemma logger_fields [simp]:
  "db (logger l s m) = db m"
  "blink_queue (logger l s m) = blink_queue m"
  "current_session_id (logger l s m) = current_session_id m"
  "worker_batch (logger l s m) = worker_batch m"
  "worker_last_batch_time (logger l s m) = worker_last_batch_time m"
  "batch_size (logger l s m) = batch_size m"
  "batch_timeout (logger l s m) = batch_timeout m"
  "user_id (logger l s m) = user_id m"
  "user_email (logger l s m) = user_email m"
  "logged (logger l s m) = logged m @ [(l, s)]"
  by (simp_all add: logger_def)

lemma select_active_session_None:
  "select_active_session rows = None \<longleftrightarrow> open_sessions rows = []"
  by (simp add: select_active_session_def open_sessions_def split: list.splits)

lemma fold_latest_mem:
  "fold (\<lambda>b a. if ls_start_time a < ls_start_time b then b else a) ss s \<in> set (s # ss)"
  by (induction ss arbitrary: s) (auto split: if_splits)

lemma select_active_session_Some:
  assumes "select_active_session rows = Some s"
  shows "s \<in> set (open_sessions rows)"
proof -
  from assms obtain x xs where f: "open_sessions rows = x # xs"
    and s: "s = fold (\<lambda>b a. if ls_start_time a < ls_start_time b then b else a) xs x"
    by (auto simp: select_active_session_def open_sessions_def split: list.splits)
  from fold_latest_mem [of xs x] show ?thesis
    unfolding f s .
qed

lemma open_sessions_map_keep:
  "(\<And>s. (ls_end_time (f s) = None) = (ls_end_time s = None)) \<Longrightarrow>
     length (open_sessions (map f rows)) = length (open_sessions rows)"
  by (induction rows) (auto simp: open_sessions_def)

lemma open_sessions_map_close:
  "(\<And>s. ls_end_time (f s) = None \<Longrightarrow> ls_end_time s = None) \<Longrightarrow>
     length (open_sessions (map f rows)) \<le> length (open_sessions rows)"
  by (induction rows) (auto simp: open_sessions_def)

lemma insert_blink_batch_sessions [simp]:
  "local_sessions (db (fst (insert_blink_batch db_ok batch m))) = local_sessions (db m)"
  by (simp add: insert_blink_batch_def Let_def)

lemma worker_get_sessions [simp]: "db (worker_get m) = db m"
  by (simp add: worker_get_def split: list.splits)

lemma worker_step_sessions [simp]:
  "local_sessions (db (process_blink_batches_step db_ok t m)) = local_sessions (db m)"
proof -
  have *: "local_sessions (db (case insert_blink_batch db_ok b m' of
                                (m, Inr _) \<Rightarrow> m\<lparr> worker_batch := [], worker_last_batch_time := t \<rparr>
                              | (m, Inl e) \<Rightarrow> logger ERROR ''Error in blink batch processing'' m))
            = local_sessions (db m')" for b m'
    by (simp add: insert_blink_batch_def Let_def)
  show ?thesis
    by (simp add: process_blink_batches_step_def Let_def *)
qed

lemma update_session_totals_open:
  "length (open_sessions (local_sessions (db (update_session_totals fl db_ok c r m))))
     = length (open_sessions (local_sessions (db m)))"
  by (auto simp: update_session_totals_def Let_def intro!: open_sessions_map_keep
      split: option.splits if_splits)

lemma log_blink_open:
  "length (open_sessions (local_sessions (db (fst (log_blink fl db_ok now c r e m)))))
     = length (open_sessions (local_sessions (db m)))"
  by (auto simp: log_blink_def log_blink_try_def put_nowait_def Let_def update_session_totals_open
      split: option.splits sum.splits exn.splits)

lemma auto_create_session_open:
  "length (open_sessions (local_sessions (db m))) \<le> 1 \<Longrightarrow>
   length (open_sessions (local_sessions (db (fst (auto_create_session db_ok now m))))) \<le> 1"
  by (auto simp: auto_create_session_def Let_def select_active_session_None open_sessions_def
      split: option.splits)

lemma end_current_session_open:
  "end_current_session db_ok now m = Some (m', r) \<Longrightarrow>
   length (open_sessions (local_sessions (db m'))) \<le> length (open_sessions (local_sessions (db m)))"
  by (auto simp: end_current_session_def Let_def intro!: open_sessions_map_close
      split: option.splits if_splits)

lemma cleanup_old_data_open:
  "length (open_sessions (local_sessions (db (cleanup_old_data db_ok now days m))))
     \<le> length (open_sessions (local_sessions (db m)))"
proof -
  have "length (filter P (filter Q xs)) \<le> length (filter P xs)" for P Q and xs :: "local_session list"
    by (induction xs) auto
  then show ?thesis
    by (simp add: cleanup_old_data_def Let_def open_sessions_def)
qed

lemma apply_op_open:
  assumes inv: "length (open_sessions (local_sessions (db m))) \<le> 1"
  shows "length (open_sessions (local_sessions (db (apply_op fl op m)))) \<le> 1"
proof (cases op)
  case (Restart u t)
  with inv show ?thesis by (simp add: init_manager_def)
next
  case (AutoCreateSession b n)
  with inv show ?thesis using auto_create_session_open by simp
next
  case (LogBlink b n c r e)
  with inv show ?thesis by (simp add: log_blink_open)
next
  case (WorkerStep b t)
  with inv show ?thesis by simp
next
  case (EndCurrentSession b n)
  show ?thesis
  proof (cases "end_current_session b n m")
    case None
    with inv EndCurrentSession show ?thesis by simp
  next
    case (Some a)
    then obtain m' r where "end_current_session b n m = Some (m', r)"
      by (cases a) simp
    with inv EndCurrentSession end_current_session_open [OF this] show ?thesis by simp
  qed
next
  case (CleanupOldData b n d)
  with inv show ?thesis
    using cleanup_old_data_open [of b n d m] by simp
qed

lemma run_ops_open:
  "length (open_sessions (local_sessions (db m))) \<le> 1 \<Longrightarrow>
   length (open_sessions (local_sessions (db (run_ops fl ops m)))) \<le> 1"
proof (induction ops arbitrary: m)
  case Nil
  then show ?case by simp
next
  case (Cons op ops)
  from Cons.IH [OF apply_op_open [OF Cons.prems]] show ?case by simp
qed

lemma init_open:
  "length (open_sessions (local_sessions (db (init_manager empty_db u t0)))) \<le> 1"
  by (simp add: init_manager_def empty_db_def open_sessions_def)

lemma started_manager_eq:
  "db started_manager = \<lparr> local_sessions =
       [\<lparr> ls_id = 1, ls_user_id = None, ls_user_email = None, ls_start_time = 100,
          ls_end_time = None, ls_total_blinks = 0, ls_max_blink_rate = 0,
          ls_avg_blink_rate = Some 0, ls_session_duration = 0, ls_is_synced = False,
          ls_cloud_session_id = None, ls_created_at = 100 \<rparr>],
       blink_data_rows = [], next_session_id = 2, next_blink_id = 1 \<rparr>"
  "current_session_id started_manager = Some 1"
  "blink_queue started_manager = Queue 0"
  "worker_batch started_manager = []"
  "worker_last_batch_time started_manager = 0"
  "batch_size started_manager = 50"
  "batch_timeout started_manager = 2"
  "user_id started_manager = None"
  by (simp_all add: started_manager_def fresh_manager_def init_manager_def empty_db_def
      auto_create_session_def select_active_session_def Let_def)

subsection \<open>Open sessions\<close>

text \<open>
  C3, as the code has it. On the local store there is at most one open session in every
  state that the operations reach from an empty file: \<open>auto_create_session\<close> returns
  an open session that exists and leaves the store as it is, and inserts one only when
  none is open. On the remote store \<open>start_session\<close> succeeds only for an owner
  without an open session, who then has exactly one. The upload does not look at open
  sessions: for a local session without a match it creates a remote session with the end
  time the local one carries, so an open local session adds an open remote session to
  those the owner already has.
\<close>

theorem one_open_session:
  "length (open_sessions (local_sessions (db (run_ops fl ops (init_manager empty_db user_data t0)))))
     \<le> 1
   \<and> (open_sessions (local_sessions (db m)) \<noteq> [] \<longrightarrow>
        db (fst (auto_create_session True now m)) = db m
        \<and> snd (auto_create_session True now m)
            \<in> Inr ` ls_id ` set (open_sessions (local_sessions (db m))))
   \<and> (open_sessions (local_sessions (db m)) = [] \<longrightarrow>
        length (open_sessions (local_sessions (db (fst (auto_create_session True now m))))) = 1)
   \<and> (start_session now request current_user cdb = Inr (cdb', resp) \<longrightarrow>
        open_cloud_sessions (u_id current_user) cdb = []
        \<and> length (open_cloud_sessions (u_id current_user) cdb') = 1)
   \<and> (sp_start_time p = Some t \<and> session_id_for owner t cdb = None
        \<and> upload_session fl now owner p (cdb, n, k) = Inr (cdb', n', k') \<longrightarrow>
        open_cloud_sessions owner cdb'
          = open_cloud_sessions owner cdb
            @ (if sp_end_time p = None
               then [projr (create_cloud_session fl now (next_uuid cdb) owner t p)] else [])
        \<and> cloud_sessions cdb'
            = cloud_sessions cdb @ [projr (create_cloud_session fl now (next_uuid cdb) owner t p)]
        \<and> cs_user_id (projr (create_cloud_session fl now (next_uuid cdb) owner t p)) = owner
        \<and> cs_end_time (projr (create_cloud_session fl now (next_uuid cdb) owner t p))
            = sp_end_time p)"
proof -
  have local: "length (open_sessions (local_sessions
                 (db (run_ops fl ops (init_manager empty_db user_data t0))))) \<le> 1"
    by (rule run_ops_open [OF init_open])
  have reuse: "db (fst (auto_create_session True now m)) = db m
        \<and> snd (auto_create_session True now m)
            \<in> Inr ` ls_id ` set (open_sessions (local_sessions (db m)))"
    if "open_sessions (local_sessions (db m)) \<noteq> []"
  proof -
    from that obtain s where s: "select_active_session (local_sessions (db m)) = Some s"
      by (cases "select_active_session (local_sessions (db m))")
        (auto simp: select_active_session_None)
    from select_active_session_Some [OF s] s show ?thesis
      by (simp add: auto_create_session_def Let_def)
  qed
  have fresh: "length (open_sessions (local_sessions (db (fst (auto_create_session True now m))))) = 1"
    if "open_sessions (local_sessions (db m)) = []"
    using that
    by (simp add: auto_create_session_def Let_def select_active_session_None [symmetric])
      (simp add: open_sessions_def select_active_session_None)
  have start: "open_cloud_sessions (u_id current_user) cdb = []
        \<and> length (open_cloud_sessions (u_id current_user) cdb') = 1"
    if "start_session now request current_user cdb = Inr (cdb', resp)"
  proof -
    from that have none: "get_active_session cdb (u_id current_user) = None"
      and c: "cloud_sessions cdb' = cloud_sessions cdb
        @ [\<lparr> cs_id = next_uuid cdb, cs_user_id = u_id current_user,
             cs_local_session_id = None, cs_start_time = now, cs_end_time = None,
             cs_total_blinks = 0, cs_avg_blink_rate = 0, cs_max_blink_rate = 0,
             cs_session_duration = 0, cs_device_info = Some (ssr_device_info request),
             cs_health_score = None, cs_created_at = now \<rparr>]"
      by (auto simp: start_session_def Let_def split: if_splits option.splits)
    from none have e: "open_cloud_sessions (u_id current_user) cdb = []"
      by (auto simp: get_active_session_def open_cloud_sessions_def find_None_iff filter_empty_conv)
    with c show ?thesis
      by (simp add: open_cloud_sessions_def)
  qed
  have upload: "open_cloud_sessions owner cdb'
          = open_cloud_sessions owner cdb
            @ (if sp_end_time p = None
               then [projr (create_cloud_session fl now (next_uuid cdb) owner t p)] else [])
        \<and> cloud_sessions cdb'
            = cloud_sessions cdb @ [projr (create_cloud_session fl now (next_uuid cdb) owner t p)]
        \<and> cs_user_id (projr (create_cloud_session fl now (next_uuid cdb) owner t p)) = owner
        \<and> cs_end_time (projr (create_cloud_session fl now (next_uuid cdb) owner t p))
            = sp_end_time p"
    if "sp_start_time p = Some t \<and> session_id_for owner t cdb = None
        \<and> upload_session fl now owner p (cdb, n, k) = Inr (cdb', n', k')"
  proof -
    from that have st: "sp_start_time p = Some t"
      and nf: "find (\<lambda>s. cs_user_id s = owner \<and> cs_start_time s = t) (cloud_sessions cdb) = None"
      and run: "upload_session fl now owner p (cdb, n, k) = Inr (cdb', n', k')"
      by (simp_all add: session_id_for_find(2))
    from run have v: "valid_points (sp_blink_data p)"
      unfolding upload_session_created [OF st nf] by (simp split: if_splits)
    from run v have "cloud_sessions cdb' = cloud_sessions cdb
        @ [projr (create_cloud_session fl now (next_uuid cdb) owner t p)]"
      unfolding upload_session_created [OF st nf] by auto
    then show ?thesis
      by (simp add: open_cloud_sessions_def created_session_keys [OF v])
  qed
  from local reuse fresh start upload show ?thesis by blast
qed

theorem one_open_session_witness:
  "open_sessions (local_sessions (db started_manager)) \<noteq> []
   \<and> db (fst (auto_create_session True 200 started_manager)) = db started_manager
   \<and> snd (auto_create_session True 200 started_manager) = Inr 1
   \<and> open_sessions (local_sessions (db fresh_manager)) = []
   \<and> length (open_sessions (local_sessions (db started_manager))) = 1
   \<and> (case start_session 1000 start_request_one user_one empty_cloud_db of
        Inl e \<Rightarrow> False
      | Inr (cdb', resp) \<Rightarrow> length (open_cloud_sessions 1 cdb') = 1)
   \<and> length (open_cloud_sessions 1
         (fst (projr (upload_session exact_arith 5000 1 open_payload (db_one, 0, 0))))) = 2"
proof -
  have h1: "open_sessions (local_sessions (db started_manager)) \<noteq> []"
    by (simp add: started_manager_eq open_sessions_def)
  have h2: "open_sessions (local_sessions (db fresh_manager)) = []"
    by (simp add: fresh_manager_def init_manager_def empty_db_def open_sessions_def)
  obtain cdb' resp where
    h3: "start_session 1000 start_request_one user_one empty_cloud_db = Inr (cdb', resp)"
    by (simp add: start_session_def start_request_one_def user_one_def empty_cloud_db_def
        get_active_session_def Let_def)
  have valid: "valid_points (sp_blink_data open_payload)"
    by (simp add: open_payload_def)
  have nf: "find (\<lambda>s. cs_user_id s = 1 \<and> cs_start_time s = 2000) (cloud_sessions db_one) = None"
    by (simp add: db_one_def)
  have st: "sp_start_time open_payload = Some 2000"
    by (simp add: open_payload_def)
  obtain cdb2 n2 k2 where
    h4: "upload_session exact_arith 5000 1 open_payload (db_one, 0, 0) = Inr (cdb2, n2, k2)"
    unfolding upload_session_created [OF st nf] using valid by simp
  have h5: "sp_start_time open_payload = Some 2000 \<and> session_id_for 1 2000 db_one = None"
    by (simp add: open_payload_def session_id_for_def db_one_def)
  have ids: "Inr ` ls_id ` set (open_sessions (local_sessions (db started_manager)))
               = {Inr 1 :: exn + int}"
    by (simp add: started_manager_eq open_sessions_def)
  have o1: "length (open_cloud_sessions 1 db_one) = 1"
    by (simp add: open_cloud_sessions_def db_one_def)
  have e: "sp_end_time open_payload = None"
    by (simp add: open_payload_def)
  note t = one_open_session [where m = started_manager and now = 200 and request = start_request_one
      and current_user = user_one and cdb = empty_cloud_db and cdb' = cdb' and resp = resp]
  note t' = one_open_session [where m = started_manager and now = 1000
      and request = start_request_one
      and current_user = user_one and cdb = empty_cloud_db and cdb' = cdb' and resp = resp]
  note u = one_open_session [where m = fresh_manager and now = 100]
  note v = one_open_session [where fl = exact_arith and now = 5000 and cdb = db_one and cdb' = cdb2
      and p = open_payload and t = 2000 and owner = 1 and n = 0 and k = 0 and n' = n2 and k' = k2]
  from t h1 ids have a: "db (fst (auto_create_session True 200 started_manager)) = db started_manager
     \<and> snd (auto_create_session True 200 started_manager) = Inr 1"
    by simp
  from t' h3 have a': "length (open_cloud_sessions 1 cdb') = 1"
    by (simp add: user_one_def)
  from u h2 have b: "length (open_sessions (local_sessions (db started_manager))) = 1"
    by (simp add: started_manager_def)
  from v h4 h5 e o1 have c: "length (open_cloud_sessions 1 cdb2) = 2"
    by simp
  from a a' b c h1 h2 h3 h4 show ?thesis by simp
qed

text \<open>
  C3 as stated fails on the upload: one upload of two open local sessions to an empty
  remote store leaves the owner with two open remote sessions.
\<close>

theorem upload_adds_open_sessions:
  "open_cloud_sessions 1 empty_cloud_db = []
   \<and> upload_local_data exact_arith 5000 upload_open user_one empty_cloud_db
       = Inr (projr (upload_local_data exact_arith 5000 upload_open user_one empty_cloud_db))
   \<and> map cs_end_time (open_cloud_sessions 1
        (fst (projr (upload_local_data exact_arith 5000 upload_open user_one empty_cloud_db)))) = [None, None]
   \<and> map cs_local_session_id (open_cloud_sessions 1
        (fst (projr (upload_local_data exact_arith 5000 upload_open user_one empty_cloud_db))))
       = [Some 4, Some 5]"
  by (simp add: upload_open_def open_payload_def open_payload_b_def empty_cloud_db_def
      open_cloud_sessions_def upload_eval)

subsection \<open>Closing twice\<close>

lemma ended_manager_eq:
  "end_current_session True 900 started_manager
     = Some (ended_manager,
             Some \<lparr> ls_id = 1, ls_user_id = None, ls_user_email = None, ls_start_time = 100,
                    ls_end_time = Some 900, ls_total_blinks = 0, ls_max_blink_rate = 0,
                    ls_avg_blink_rate = Some 0, ls_session_duration = 0, ls_is_synced = False,
                    ls_cloud_session_id = None, ls_created_at = 100 \<rparr>)"
  by (simp add: ended_manager_def end_current_session_def started_manager_eq Queue_def
      get_session_def total_seconds_int_def Let_def)

text \<open>
  C4, as the code has it. A second close writes nothing and returns no record. On the
  local store \<open>end_current_session\<close> returns \<open>None\<close> and leaves the manager as
  it is whenever no session is current, which is the case after a close that returned a
  record. On the remote store \<open>end_session\<close> refuses a session that it has closed
  with status 400; the store, the events and the health score stay as the first close
  left them.
\<close>

theorem second_close:
  "(current_session_id m = None \<longrightarrow> end_current_session db_ok t m = Some (m, None))
   \<and> (end_current_session db_ok t m = Some (m', Some s) \<longrightarrow>
        current_session_id m' = None
        \<and> end_current_session db_ok' t' m' = Some (m', None))
   \<and> (end_session now request current_user cdb = Inr (cdb', resp)
        \<and> ser_session_id request' = ser_session_id request \<longrightarrow>
        end_session now' request' current_user cdb'
          = Inl (HTTP_400_BAD_REQUEST ''Session is already ended''))"
proof -
  have none: "end_current_session db_ok t m = Some (m, None)"
    if "current_session_id m = None" for db_ok t m
    using that by (simp add: end_current_session_def)
  have again: "current_session_id m' = None \<and> end_current_session db_ok' t' m' = Some (m', None)"
    if "end_current_session db_ok t m = Some (m', Some s)"
  proof -
    from that have "current_session_id m' = None"
      by (auto simp: end_current_session_def Let_def split: option.splits if_splits)
    with none show ?thesis by simp
  qed
  have remote: "end_session now' request' current_user cdb'
          = Inl (HTTP_400_BAD_REQUEST ''Session is already ended'')"
    if "end_session now request current_user cdb = Inr (cdb', resp)
        \<and> ser_session_id request' = ser_session_id request"
  proof -
    from that have ok: "end_session now request current_user cdb = Inr (cdb', resp)"
      and same: "ser_session_id request' = ser_session_id request" by simp_all
    from ok obtain session where
      f: "find (\<lambda>s. cs_id s = ser_session_id request) (cloud_sessions cdb) = Some session"
      by (auto simp: end_session_def split: option.splits)
    from f have idm: "cs_id session = ser_session_id request"
      by (auto simp: find_Some_iff)
    let ?closed = "session\<lparr> cs_end_time := Some now,
                         cs_total_blinks := ser_total_blinks request,
                         cs_avg_blink_rate := ser_avg_blink_rate request,
                         cs_max_blink_rate := ser_max_blink_rate request,
                         cs_session_duration := ser_session_duration request,
                         cs_health_score := Some (calculate_health_score
                           (ser_avg_blink_rate request) (ser_session_duration request)) \<rparr>"
    from ok f have own: "cs_user_id session = u_id current_user"
      and c: "cloud_sessions cdb' = update_first (\<lambda>s. cs_id s = ser_session_id request)
                (\<lambda>_. ?closed) (cloud_sessions cdb)"
      by (auto simp: end_session_def Let_def split: if_splits)
    have "find (\<lambda>s. cs_id s = ser_session_id request) (cloud_sessions cdb') = Some ?closed"
      unfolding c by (rule update_first_find_same [OF f]) (simp add: idm)
    with own same show ?thesis
      by (simp add: end_session_def)
  qed
  from none again remote show ?thesis by blast
qed

theorem second_close_witness:
  "current_session_id fresh_manager = None
   \<and> end_current_session True 50 fresh_manager = Some (fresh_manager, None)
   \<and> end_current_session True 950 ended_manager = Some (ended_manager, None)
   \<and> end_session 9000 end_request_one user_one db_one
       = Inr (projr (end_session 9000 end_request_one user_one db_one))
   \<and> end_session 9500 end_request_one user_one
        (fst (projr (end_session 9000 end_request_one user_one db_one)))
       = Inl (HTTP_400_BAD_REQUEST ''Session is already ended'')"
proof -
  have h1: "current_session_id fresh_manager = None"
    by (simp add: fresh_manager_def init_manager_def)
  have h3: "end_session 9000 end_request_one user_one db_one
       = Inr (projr (end_session 9000 end_request_one user_one db_one))"
    by (simp add: end_session_def end_request_one_def user_one_def db_one_def Let_def)
  then have h3': "end_session 9000 end_request_one user_one db_one
       = Inr (fst (projr (end_session 9000 end_request_one user_one db_one)),
              snd (projr (end_session 9000 end_request_one user_one db_one)))"
    by simp
  note a = second_close [where m = fresh_manager and db_ok = True and t = 50]
  note b = second_close [where m = started_manager and db_ok = True and t = 900
      and m' = ended_manager and db_ok' = True and t' = 950]
  note c = second_close [where now = 9000 and request = end_request_one and current_user = user_one
      and cdb = db_one and request' = end_request_one and now' = 9500]
  from a h1 have r1: "end_current_session True 50 fresh_manager = Some (fresh_manager, None)"
    by simp
  from b ended_manager_eq have r2: "end_current_session True 950 ended_manager = Some (ended_manager, None)"
    by simp
  from c h3' have r3: "end_session 9500 end_request_one user_one
        (fst (projr (end_session 9000 end_request_one user_one db_one)))
       = Inl (HTTP_400_BAD_REQUEST ''Session is already ended'')"
    by blast
  from h1 r1 r2 h3 r3 show ?thesis by simp
qed

text \<open>
  C4 as stated fails: the first local close returns the closed record and the second
  returns \<open>None\<close>, and closing a closed remote session is answered with an error.
\<close>

theorem second_close_returns_no_record:
  "end_current_session True 900 started_manager
     = Some (ended_manager,
             Some \<lparr> ls_id = 1, ls_user_id = None, ls_user_email = None, ls_start_time = 100,
                    ls_end_time = Some 900, ls_total_blinks = 0, ls_max_blink_rate = 0,
                    ls_avg_blink_rate = Some 0, ls_session_duration = 0, ls_is_synced = False,
                    ls_cloud_session_id = None, ls_created_at = 100 \<rparr>)
   \<and> end_current_session True 950 ended_manager = Some (ended_manager, None)
   \<and> end_session 9500 end_request_one user_one db_closed
       = Inl (HTTP_400_BAD_REQUEST ''Session is already ended'')"
proof -
  have "current_session_id ended_manager = None"
    by (simp add: ended_manager_def end_current_session_def started_manager_eq Queue_def
      get_session_def total_seconds_int_def Let_def)
  then have "end_current_session True 950 ended_manager = Some (ended_manager, None)"
    by (simp add: end_current_session_def)
  moreover have "end_session 9500 end_request_one user_one db_closed
       = Inl (HTTP_400_BAD_REQUEST ''Session is already ended'')"
    by (simp add: end_session_def end_request_one_def user_one_def db_closed_def db_one_def)
  ultimately show ?thesis
    using ended_manager_eq by simp
qed

subsection \<open>A flush that fails\<close>

lemma worker_get_fields [simp]:
  "batch_size (worker_get m) = batch_size m"
  "batch_timeout (worker_get m) = batch_timeout m"
  "worker_last_batch_time (worker_get m) = worker_last_batch_time m"
  "logged (worker_get m) = logged m"
  "current_session_id (worker_get m) = current_session_id m"
  by (simp_all add: worker_get_def split: list.splits)







lemma after_blink_5_eq:
  "blink_queue after_blink_5 = \<lparr> maxsize = 0, items = [blink_5] \<rparr>"
  "worker_batch after_blink_5 = []"
  "worker_last_batch_time after_blink_5 = 0"
  "batch_size after_blink_5 = 50"
  "batch_timeout after_blink_5 = 2"
  "current_session_id after_blink_5 = Some 1"
  "local_sessions (db after_blink_5) =
       [\<lparr> ls_id = 1, ls_user_id = None, ls_user_email = None, ls_start_time = 100,
          ls_end_time = None, ls_total_blinks = 5, ls_max_blink_rate = 12,
          ls_avg_blink_rate = None, ls_session_duration = 0, ls_is_synced = False,
          ls_cloud_session_id = None, ls_created_at = 100 \<rparr>]"
  "blink_data_rows (db after_blink_5) = []"
  "next_blink_id (db after_blink_5) = 1"
  by (simp_all add: after_blink_5_def log_blink_def log_blink_try_def put_nowait_def
      queue_full_def update_session_totals_def sql_avg_def started_manager_eq Queue_def
      blink_5_def Let_def)










subsection \<open>Ingest\<close>

lemma update_session_totals_fields [simp]:
  "blink_queue (update_session_totals fl db_ok c r m) = blink_queue m"
  "current_session_id (update_session_totals fl db_ok c r m) = current_session_id m"
  by (simp_all add: update_session_totals_def Let_def split: option.splits)

lemma log_blink_unbounded_step:
  assumes "maxsize (blink_queue m) = 0" "current_session_id m = Some sid"
  shows "maxsize (blink_queue (fst (log_blink fl db_ok now c r e m))) = 0
    \<and> current_session_id (fst (log_blink fl db_ok now c r e m)) = Some sid
    \<and> length (items (blink_queue (fst (log_blink fl db_ok now c r e m))))
        = Suc (length (items (blink_queue m)))"
  using assms
  by (simp add: log_blink_def log_blink_try_def put_nowait_def queue_full_def Let_def)

lemma log_blink_unbounded:
  "maxsize (blink_queue m) = 0 \<Longrightarrow> current_session_id m = Some sid \<Longrightarrow>
   length (items (blink_queue (run_ops fl (replicate n (LogBlink db_ok now c r e)) m)))
     = length (items (blink_queue m)) + n"
proof (induction n arbitrary: m)
  case 0
  then show ?case by simp
next
  case (Suc n)
  note s = log_blink_unbounded_step [OF Suc.prems, of fl db_ok now c r e]
  from Suc.IH [of "fst (log_blink fl db_ok now c r e m)"] s show ?case by simp
qed

text \<open>The queue that \<open>__init__\<close> builds has no bound, and no operation replaces it by one that has.\<close>

lemma log_blink_maxsize:
  "maxsize (blink_queue (fst (log_blink fl db_ok now c r e m))) = maxsize (blink_queue m)"
  by (simp add: log_blink_def log_blink_try_def put_nowait_def Let_def
      split: option.splits)

lemma insert_blink_batch_queue:
  "blink_queue (fst (insert_blink_batch db_ok batch m)) = blink_queue m"
  by (simp add: insert_blink_batch_def Let_def)

lemma worker_get_maxsize:
  "maxsize (blink_queue (worker_get m)) = maxsize (blink_queue m)"
  by (simp add: worker_get_def split: list.splits)

lemma worker_step_maxsize:
  "maxsize (blink_queue (process_blink_batches_step db_ok t m)) = maxsize (blink_queue m)"
proof -
  have "blink_queue (process_blink_batches_step db_ok t m) = blink_queue (worker_get m)"
    using insert_blink_batch_queue [of db_ok "worker_batch (worker_get m)" "worker_get m"]
    by (auto simp: process_blink_batches_step_def Let_def split: prod.splits sum.splits)
  then show ?thesis by (simp add: worker_get_maxsize)
qed

lemma apply_op_maxsize:
  "maxsize (blink_queue m) = 0 \<Longrightarrow> maxsize (blink_queue (apply_op fl op m)) = 0"
proof (cases op)
  case (Restart u t)
  then show ?thesis by (simp add: init_manager_def Queue_def)
next
  case (AutoCreateSession b n)
  assume "maxsize (blink_queue m) = 0"
  with AutoCreateSession show ?thesis
    by (simp add: auto_create_session_def Let_def split: option.splits)
next
  case (LogBlink b n c r e)
  assume "maxsize (blink_queue m) = 0"
  with LogBlink show ?thesis by (simp add: log_blink_maxsize)
next
  case (WorkerStep b t)
  assume "maxsize (blink_queue m) = 0"
  with WorkerStep show ?thesis by (simp add: worker_step_maxsize)
next
  case (EndCurrentSession b n)
  assume "maxsize (blink_queue m) = 0"
  with EndCurrentSession show ?thesis
    by (auto simp: end_current_session_def Let_def split: option.splits if_splits)
next
  case (CleanupOldData b n d)
  assume "maxsize (blink_queue m) = 0"
  with CleanupOldData show ?thesis by (simp add: cleanup_old_data_def Let_def)
qed

lemma run_ops_maxsize:
  "maxsize (blink_queue m) = 0 \<Longrightarrow> maxsize (blink_queue (run_ops fl ops m)) = 0"
  by (induction ops arbitrary: m) (simp_all add: apply_op_maxsize)

lemma reachable_maxsize:
  "maxsize (blink_queue (run_ops fl ops (init_manager d user_data t0))) = 0"
  by (rule run_ops_maxsize) (simp add: init_manager_def Queue_def)

text \<open>
  C6, as the code has it. Every call to \<open>log_blink\<close> returns normally, whatever the
  database does. The queue of a manager, in every state that the operations reach after
  \<open>__init__\<close>, has no bound and is never full. So with a current session the event is
  appended to the in-memory queue by a put that does not block, and before the call
  returns \<open>_update_session_totals\<close> writes the totals of the session to the local
  store, on the caller's thread: \<open>total_blinks\<close> of the current session becomes the
  passed count, \<open>max_blink_rate\<close> the larger of the stored and the passed rate,
  \<open>avg_blink_rate\<close> the average that the store computes over the rates of the stored
  events of the session (null if there is none), no row of events is written, and the log
  gains the one line of the ingest. If that write fails, the
  failure is logged, not raised: the store is as it was, the event is queued all the same,
  and the log gains the error and then the line of the ingest.
\<close>

theorem log_blink_returns:
  "snd (log_blink fl db_ok now blink_count blink_rate eye_aspect_ratio m) = Inr ()
   \<and> maxsize (blink_queue (run_ops fl ops (init_manager d user_data t0))) = 0
   \<and> \<not> queue_full (blink_queue (run_ops fl ops (init_manager d user_data t0)))
   \<and> (m = run_ops fl ops (init_manager d user_data t0) \<and> current_session_id m = Some sid \<longrightarrow>
        blink_queue (fst (log_blink fl db_ok now blink_count blink_rate eye_aspect_ratio m))
          = \<lparr> maxsize = 0,
              items = items (blink_queue m)
                @ [\<lparr> bd_id = None, bd_session_id = sid, bd_user_id = user_id m,
                     bd_timestamp = now, bd_blink_count = blink_count,
                     bd_blink_rate = blink_rate, bd_eye_aspect_ratio = eye_aspect_ratio,
                     bd_is_synced = False \<rparr>] \<rparr>
        \<and> map (\<lambda>s. (ls_id s, ls_total_blinks s, ls_max_blink_rate s, ls_avg_blink_rate s))
              (local_sessions (db (fst (log_blink fl True now blink_count blink_rate
                 eye_aspect_ratio m))))
            = map (\<lambda>s. (ls_id s,
                         if ls_id s = sid then blink_count else ls_total_blinks s,
                         if ls_id s = sid then max (ls_max_blink_rate s) blink_rate
                         else ls_max_blink_rate s,
                         if ls_id s = sid
                         then (if filter (\<lambda>b. bd_session_id b = sid) (blink_data_rows (db m)) = []
                               then None
                               else Some (float_div fl
                                 (float_sum fl (map bd_blink_rate
                                    (filter (\<lambda>b. bd_session_id b = sid) (blink_data_rows (db m)))))
                                 (of_nat (length
                                    (filter (\<lambda>b. bd_session_id b = sid) (blink_data_rows (db m)))))))
                         else ls_avg_blink_rate s))
                (local_sessions (db m))
        \<and> blink_data_rows (db (fst (log_blink fl True now blink_count blink_rate
              eye_aspect_ratio m)))
            = blink_data_rows (db m)
        \<and> logged (fst (log_blink fl True now blink_count blink_rate eye_aspect_ratio m))
            = logged m @ [(DEBUG, ''Blink logged'')]
        \<and> db (fst (log_blink fl False now blink_count blink_rate eye_aspect_ratio m)) = db m
        \<and> logged (fst (log_blink fl False now blink_count blink_rate eye_aspect_ratio m))
            = logged m @ [(ERROR, ''Error updating session totals''), (DEBUG, ''Blink logged'')])"
proof -
  let ?m0 = "run_ops fl ops (init_manager d user_data t0)"
  have ret: "snd (log_blink fl db_ok now blink_count blink_rate eye_aspect_ratio m) = Inr ()"
    by (simp add: log_blink_def split: option.splits prod.splits sum.splits exn.splits)
  have ms: "maxsize (blink_queue ?m0) = 0"
    by (rule reachable_maxsize)
  then have nf: "\<not> queue_full (blink_queue ?m0)"
    by (simp add: queue_full_def)
  have eff: "blink_queue (fst (log_blink fl db_ok now blink_count blink_rate eye_aspect_ratio m))
          = \<lparr> maxsize = 0,
              items = items (blink_queue m)
                @ [\<lparr> bd_id = None, bd_session_id = sid, bd_user_id = user_id m,
                     bd_timestamp = now, bd_blink_count = blink_count,
                     bd_blink_rate = blink_rate, bd_eye_aspect_ratio = eye_aspect_ratio,
                     bd_is_synced = False \<rparr>] \<rparr>
        \<and> map (\<lambda>s. (ls_id s, ls_total_blinks s, ls_max_blink_rate s, ls_avg_blink_rate s))
              (local_sessions (db (fst (log_blink fl True now blink_count blink_rate
                 eye_aspect_ratio m))))
            = map (\<lambda>s. (ls_id s,
                         if ls_id s = sid then blink_count else ls_total_blinks s,
                         if ls_id s = sid then max (ls_max_blink_rate s) blink_rate
                         else ls_max_blink_rate s,
                         if ls_id s = sid
                         then (if filter (\<lambda>b. bd_session_id b = sid) (blink_data_rows (db m)) = []
                               then None
                               else Some (float_div fl
                                 (float_sum fl (map bd_blink_rate
                                    (filter (\<lambda>b. bd_session_id b = sid) (blink_data_rows (db m)))))
                                 (of_nat (length
                                    (filter (\<lambda>b. bd_session_id b = sid) (blink_data_rows (db m)))))))
                         else ls_avg_blink_rate s))
                (local_sessions (db m))
        \<and> blink_data_rows (db (fst (log_blink fl True now blink_count blink_rate
              eye_aspect_ratio m)))
            = blink_data_rows (db m)
        \<and> logged (fst (log_blink fl True now blink_count blink_rate eye_aspect_ratio m))
            = logged m @ [(DEBUG, ''Blink logged'')]
        \<and> db (fst (log_blink fl False now blink_count blink_rate eye_aspect_ratio m)) = db m
        \<and> logged (fst (log_blink fl False now blink_count blink_rate eye_aspect_ratio m))
            = logged m @ [(ERROR, ''Error updating session totals''), (DEBUG, ''Blink logged'')]"
    if h: "m = ?m0 \<and> current_session_id m = Some sid"
  proof -
    from h ms have z: "maxsize (blink_queue m) = 0" and c: "current_session_id m = Some sid"
      by auto
    from z have nfm: "\<not> queue_full (blink_queue m)" by (simp add: queue_full_def)
    have q: "blink_queue m = \<lparr> maxsize = 0, items = items (blink_queue m) \<rparr>"
      using z by (cases "blink_queue m") simp
    have 1: "blink_queue (fst (log_blink fl db_ok now blink_count blink_rate eye_aspect_ratio m))
          = \<lparr> maxsize = 0,
              items = items (blink_queue m)
                @ [\<lparr> bd_id = None, bd_session_id = sid, bd_user_id = user_id m,
                     bd_timestamp = now, bd_blink_count = blink_count,
                     bd_blink_rate = blink_rate, bd_eye_aspect_ratio = eye_aspect_ratio,
                     bd_is_synced = False \<rparr>] \<rparr>"
      using c nfm z
      by (simp add: log_blink_def log_blink_try_def put_nowait_def Let_def)
    have 2: "map (\<lambda>s. (ls_id s, ls_total_blinks s, ls_max_blink_rate s, ls_avg_blink_rate s))
              (local_sessions (db (fst (log_blink fl True now blink_count blink_rate
                 eye_aspect_ratio m))))
            = map (\<lambda>s. (ls_id s,
                         if ls_id s = sid then blink_count else ls_total_blinks s,
                         if ls_id s = sid then max (ls_max_blink_rate s) blink_rate
                         else ls_max_blink_rate s,
                         if ls_id s = sid
                         then (if filter (\<lambda>b. bd_session_id b = sid) (blink_data_rows (db m)) = []
                               then None
                               else Some (float_div fl
                                 (float_sum fl (map bd_blink_rate
                                    (filter (\<lambda>b. bd_session_id b = sid) (blink_data_rows (db m)))))
                                 (of_nat (length
                                    (filter (\<lambda>b. bd_session_id b = sid) (blink_data_rows (db m)))))))
                         else ls_avg_blink_rate s))
                (local_sessions (db m))"
      using c nfm
      by (auto simp: log_blink_def log_blink_try_def put_nowait_def update_session_totals_def
          sql_avg_def Let_def max_def)
    have 3: "blink_data_rows (db (fst (log_blink fl True now blink_count blink_rate
              eye_aspect_ratio m)))
            = blink_data_rows (db m)"
      using c nfm
      by (simp add: log_blink_def log_blink_try_def put_nowait_def update_session_totals_def
          Let_def)
    have 4: "logged (fst (log_blink fl True now blink_count blink_rate eye_aspect_ratio m))
            = logged m @ [(DEBUG, ''Blink logged'')]"
      using c nfm
      by (simp add: log_blink_def log_blink_try_def put_nowait_def update_session_totals_def
          logger_def Let_def)
    have 5: "db (fst (log_blink fl False now blink_count blink_rate eye_aspect_ratio m)) = db m"
      using c nfm
      by (simp add: log_blink_def log_blink_try_def put_nowait_def update_session_totals_def
          logger_def Let_def)
    have 6: "logged (fst (log_blink fl False now blink_count blink_rate eye_aspect_ratio m))
            = logged m @ [(ERROR, ''Error updating session totals''), (DEBUG, ''Blink logged'')]"
      using c nfm
      by (simp add: log_blink_def log_blink_try_def put_nowait_def update_session_totals_def
          logger_def Let_def)
    from 1 2 3 4 5 6 show ?thesis by blast
  qed
  from ret ms nf eff show ?thesis by blast
qed

theorem log_blink_returns_witness:
  "started_manager = run_ops exact_arith [AutoCreateSession True 100] (init_manager empty_db None 0)
   \<and> current_session_id started_manager = Some 1
   \<and> snd (log_blink exact_arith True 110 5 12 None started_manager) = Inr ()
   \<and> items (blink_queue after_blink_5) = [blink_5]
   \<and> map (\<lambda>s. (ls_id s, ls_total_blinks s, ls_max_blink_rate s, ls_avg_blink_rate s))
         (local_sessions (db after_blink_5)) = [(1, 5, 12, None)]
   \<and> logged after_blink_5 = logged started_manager @ [(DEBUG, ''Blink logged'')]
   \<and> snd (log_blink exact_arith False 110 5 12 None started_manager) = Inr ()
   \<and> items (blink_queue (fst (log_blink exact_arith False 110 5 12 None started_manager)))
       = [blink_5]
   \<and> map (\<lambda>s. (ls_id s, ls_total_blinks s, ls_max_blink_rate s, ls_avg_blink_rate s))
         (local_sessions (db (fst (log_blink exact_arith False 110 5 12 None started_manager))))
       = [(1, 0, 0, Some 0)]
   \<and> logged (fst (log_blink exact_arith False 110 5 12 None started_manager))
       = logged started_manager
         @ [(ERROR, ''Error updating session totals''), (DEBUG, ''Blink logged'')]"
proof -
  have r: "started_manager
      = run_ops exact_arith [AutoCreateSession True 100] (init_manager empty_db None 0)"
    by (simp add: started_manager_def fresh_manager_def)
  have c: "current_session_id started_manager = Some 1"
    by (simp add: started_manager_eq)
  note t = log_blink_returns [where m = started_manager and sid = 1 and fl = exact_arith
      and ops = "[AutoCreateSession True 100]" and d = empty_db and user_data = None
      and ?t0.0 = 0 and now = 110 and blink_count = 5 and blink_rate = 12
      and eye_aspect_ratio = None]
  note a = t [where db_ok = True]
  note b = t [where db_ok = False]
  from a r c have 1: "items (blink_queue after_blink_5) = [blink_5]"
    by (simp add: after_blink_5_def blink_5_def started_manager_eq Queue_def)
  from a r c
  have 2: "map (\<lambda>s. (ls_id s, ls_total_blinks s, ls_max_blink_rate s, ls_avg_blink_rate s))
         (local_sessions (db after_blink_5)) = [(1, 5, 12, None)]"
    by (simp add: after_blink_5_def started_manager_eq)
  from a r c have 3: "logged after_blink_5 = logged started_manager @ [(DEBUG, ''Blink logged'')]"
    by (simp add: after_blink_5_def)
  from a have 4: "snd (log_blink exact_arith True 110 5 12 None started_manager) = Inr ()"
    by blast
  from b have 5: "snd (log_blink exact_arith False 110 5 12 None started_manager) = Inr ()"
    by blast
  from b r c
  have 6: "items (blink_queue (fst (log_blink exact_arith False 110 5 12 None started_manager)))
       = [blink_5]"
    by (simp add: blink_5_def started_manager_eq Queue_def)
  from b r c
  have "db (fst (log_blink exact_arith False 110 5 12 None started_manager)) = db started_manager"
    by blast
  then have 7: "map (\<lambda>s. (ls_id s, ls_total_blinks s, ls_max_blink_rate s, ls_avg_blink_rate s))
         (local_sessions (db (fst (log_blink exact_arith False 110 5 12 None started_manager))))
       = [(1, 0, 0, Some 0)]"
    by (simp add: started_manager_eq)
  from b r c
  have 8: "logged (fst (log_blink exact_arith False 110 5 12 None started_manager))
       = logged started_manager
         @ [(ERROR, ''Error updating session totals''), (DEBUG, ''Blink logged'')]"
    by blast
  from r c 1 2 3 4 5 6 7 8 show ?thesis by blast
qed

text \<open>
  C6 as stated fails: an ingest writes the session row of the store within the call, and
  the queue that \<open>__init__\<close> builds has no bound, so that 100000 ingests without a
  step of the worker leave 100000 events queued and none dropped.
\<close>

theorem log_blink_writes_store_and_queue_unbounded:
  "maxsize (blink_queue started_manager) = 0
   \<and> map ls_total_blinks (local_sessions (db started_manager)) = [0]
   \<and> map ls_total_blinks
         (local_sessions (db (fst (log_blink exact_arith True 110 5 12 None started_manager))))
       = [5]
   \<and> length (items (blink_queue
        (run_ops exact_arith (replicate 100000 (LogBlink True 110 5 12 None)) started_manager)))
       = 100000"
proof -
  have m0: "maxsize (blink_queue started_manager) = 0"
    and s: "current_session_id started_manager = Some 1"
    and e: "items (blink_queue started_manager) = []"
    by (simp_all add: started_manager_eq Queue_def)
  from log_blink_unbounded [OF m0 s, of exact_arith 100000 True 110 5 12 None] e
  have "length (items (blink_queue
        (run_ops exact_arith (replicate 100000 (LogBlink True 110 5 12 None)) started_manager)))
       = 100000"
    by simp
  moreover have "map ls_total_blinks
         (local_sessions (db (fst (log_blink exact_arith True 110 5 12 None started_manager))))
       = [5]"
    using after_blink_5_eq by (simp add: after_blink_5_def)
  moreover have "map ls_total_blinks (local_sessions (db started_manager)) = [0]"
    by (simp add: started_manager_eq)
  ultimately show ?thesis using m0 by simp
qed

subsection \<open>The totals of a session under the operations that write them\<close>

lemma merge_existing_mono:
  assumes "merge_existing fl p r = Inr r'"
  shows "cs_total_blinks r \<le> cs_total_blinks r' \<and> cs_max_blink_rate r \<le> cs_max_blink_rate r'"
proof (cases "valid_points (sp_blink_data p)")
  case True
  from assms merge_existing_valid [OF True, of fl r] have "r' = merged_session fl r p"
    by simp
  then show ?thesis by (simp add: merged_session_def)
next
  case False
  from assms merge_existing_invalid [OF False, of fl r] show ?thesis by simp
qed

lemma merge_all_mono:
  "merge_all fl ps r = Inr r' \<Longrightarrow>
   cs_total_blinks r \<le> cs_total_blinks r' \<and> cs_max_blink_rate r \<le> cs_max_blink_rate r'"
proof (induction ps arbitrary: r)
  case Nil
  then show ?case by simp
next
  case (Cons p ps)
  from Cons.prems obtain x where x: "merge_existing fl p r = Inr x" and y: "merge_all fl ps x = Inr r'"
    by (auto simp: and_then_Inr)
  from Cons.IH [OF y] merge_existing_mono [OF x] show ?case
    by (auto intro: order_trans)
qed

text \<open>
  C8, as the code has it. Sync merges never lower \<open>total_blinks\<close> or
  \<open>max_blink_rate\<close> of a remote session, however many are applied, and the row an
  upload leaves for a matched pair is the merged one, with a total and a maximal rate not
  below the ones it had. On the local store the update at ingest sets
  \<open>total_blinks\<close> of the current session to the count the caller passes, whatever the
  stored value was, and raises \<open>max_blink_rate\<close> to the passed rate if that is higher;
  closing the current session leaves \<open>total_blinks\<close> of every row as it is. The remote
  \<open>end_session\<close> stores the total of the request in the row of the session, whatever
  the stored value was, leaves every other row as it is, and answers with that total.
\<close>

theorem totals_under_writes:
  "(merge_all fl ps r = Inr merged \<longrightarrow>
      cs_total_blinks r \<le> cs_total_blinks merged
      \<and> cs_max_blink_rate r \<le> cs_max_blink_rate merged)
   \<and> (sp_start_time p = Some t
        \<and> find (\<lambda>s. cs_user_id s = owner \<and> cs_start_time s = t) (cloud_sessions cdb) = Some r
        \<and> upload_session fl now owner p (cdb, n, k) = Inr (cdb', n', k') \<longrightarrow>
        merge_existing fl p r
          = Inr (the (find (\<lambda>s. cs_user_id s = owner \<and> cs_start_time s = t)
                        (cloud_sessions cdb')))
        \<and> map_option cs_id (find (\<lambda>s. cs_user_id s = owner \<and> cs_start_time s = t)
                               (cloud_sessions cdb')) = Some (cs_id r)
        \<and> cs_total_blinks r
            \<le> cs_total_blinks (the (find (\<lambda>s. cs_user_id s = owner \<and> cs_start_time s = t)
                                         (cloud_sessions cdb')))
        \<and> cs_max_blink_rate r
            \<le> cs_max_blink_rate (the (find (\<lambda>s. cs_user_id s = owner \<and> cs_start_time s = t)
                                           (cloud_sessions cdb'))))
   \<and> (current_session_id m = Some sid \<longrightarrow>
        map ls_total_blinks
            (local_sessions (db (update_session_totals fl True blink_count blink_rate m)))
          = map (\<lambda>s. if ls_id s = sid then blink_count else ls_total_blinks s)
              (local_sessions (db m))
        \<and> map ls_max_blink_rate
              (local_sessions (db (update_session_totals fl True blink_count blink_rate m)))
          = map (\<lambda>s. if ls_id s = sid then max (ls_max_blink_rate s) blink_rate
                      else ls_max_blink_rate s)
              (local_sessions (db m)))
   \<and> (end_current_session db_ok end_time m = Some (m', ended) \<longrightarrow>
        map ls_total_blinks (local_sessions (db m')) = map ls_total_blinks (local_sessions (db m)))
   \<and> (end_session now request current_user cdb = Inr (cdb', resp) \<longrightarrow>
        sr_total_blinks resp = ser_total_blinks request
        \<and> map_option cs_total_blinks
              (find (\<lambda>s. cs_id s = ser_session_id request) (cloud_sessions cdb'))
            = Some (ser_total_blinks request)
        \<and> map cs_id (cloud_sessions cdb') = map cs_id (cloud_sessions cdb)
        \<and> filter (\<lambda>s. cs_id s \<noteq> ser_session_id request) (cloud_sessions cdb')
            = filter (\<lambda>s. cs_id s \<noteq> ser_session_id request) (cloud_sessions cdb))"
proof -
  let ?P = "\<lambda>s. cs_user_id s = owner \<and> cs_start_time s = t"
  have merged: "merge_existing fl p r = Inr (the (find ?P (cloud_sessions cdb')))
        \<and> map_option cs_id (find ?P (cloud_sessions cdb')) = Some (cs_id r)
        \<and> cs_total_blinks r \<le> cs_total_blinks (the (find ?P (cloud_sessions cdb')))
        \<and> cs_max_blink_rate r \<le> cs_max_blink_rate (the (find ?P (cloud_sessions cdb')))"
    if h: "sp_start_time p = Some t \<and> find ?P (cloud_sessions cdb) = Some r
        \<and> upload_session fl now owner p (cdb, n, k) = Inr (cdb', n', k')"
  proof -
    from h have start: "sp_start_time p = Some t"
      and found: "find ?P (cloud_sessions cdb) = Some r"
      and run: "upload_session fl now owner p (cdb, n, k) = Inr (cdb', n', k')"
      by simp_all
    from found have Pr: "?P r" by (auto simp: find_Some_iff)
    note step = upload_session_matched [OF start found, of fl now n k]
    from run step have v: "valid_points (sp_blink_data p)"
      by (auto split: if_splits)
    from run step v
    have rows: "cloud_sessions cdb'
        = update_first ?P (\<lambda>s. merged_session fl s p) (cloud_sessions cdb)"
      by auto
    from Pr have "?P (merged_session fl r p)" by simp
    from update_first_find_same [OF found, of "\<lambda>s. merged_session fl s p", OF this]
    have f: "find ?P (cloud_sessions cdb') = Some (merged_session fl r p)"
      by (simp only: rows)
    note me = merge_existing_valid [OF v, of fl r]
    from merge_existing_mono [OF me] me f show ?thesis by simp
  qed
  have ingest: "map ls_total_blinks
            (local_sessions (db (update_session_totals fl True blink_count blink_rate m)))
          = map (\<lambda>s. if ls_id s = sid then blink_count else ls_total_blinks s)
              (local_sessions (db m))
        \<and> map ls_max_blink_rate
              (local_sessions (db (update_session_totals fl True blink_count blink_rate m)))
          = map (\<lambda>s. if ls_id s = sid then max (ls_max_blink_rate s) blink_rate
                      else ls_max_blink_rate s)
              (local_sessions (db m))"
    if "current_session_id m = Some sid"
    using that by (auto simp: update_session_totals_def Let_def max_def)
  have close: "map ls_total_blinks (local_sessions (db m')) = map ls_total_blinks (local_sessions (db m))"
    if "end_current_session db_ok end_time m = Some (m', ended)"
    using that
    by (auto simp: end_current_session_def Let_def split: option.splits if_splits)
  have remote: "sr_total_blinks resp = ser_total_blinks request
        \<and> map_option cs_total_blinks
              (find (\<lambda>s. cs_id s = ser_session_id request) (cloud_sessions cdb'))
            = Some (ser_total_blinks request)
        \<and> map cs_id (cloud_sessions cdb') = map cs_id (cloud_sessions cdb)
        \<and> filter (\<lambda>s. cs_id s \<noteq> ser_session_id request) (cloud_sessions cdb')
            = filter (\<lambda>s. cs_id s \<noteq> ser_session_id request) (cloud_sessions cdb)"
    if h: "end_session now request current_user cdb = Inr (cdb', resp)"
  proof -
    let ?Q = "\<lambda>s. cs_id s = ser_session_id request"
    from h obtain session where found: "find ?Q (cloud_sessions cdb) = Some session"
      by (auto simp: end_session_def split: option.splits)
    then have Q: "?Q session" by (auto simp: find_Some_iff)
    let ?s = "session\<lparr> cs_end_time := Some now,
                        cs_total_blinks := ser_total_blinks request,
                        cs_avg_blink_rate := ser_avg_blink_rate request,
                        cs_max_blink_rate := ser_max_blink_rate request,
                        cs_session_duration := ser_session_duration request,
                        cs_health_score := Some (calculate_health_score
                          (ser_avg_blink_rate request) (ser_session_duration request)) \<rparr>"
    from h found have rows: "cloud_sessions cdb' = update_first ?Q (\<lambda>_. ?s) (cloud_sessions cdb)"
      and resp: "sr_total_blinks resp = ser_total_blinks request"
      by (auto simp: end_session_def Let_def split: if_splits)
    from Q have "?Q ?s" by simp
    from update_first_find_same [OF found, of "\<lambda>_. ?s", OF this]
    have f: "find ?Q (cloud_sessions cdb') = Some ?s"
      by (simp only: rows)
    have ids: "map cs_id (update_first ?Q (\<lambda>_. ?s) xs) = map cs_id xs"
      if "find ?Q xs = Some session" for xs
      using that by (induction xs) (auto split: if_splits)
    have others: "filter (\<lambda>s. \<not> ?Q s) (update_first ?Q (\<lambda>_. ?s) xs) = filter (\<lambda>s. \<not> ?Q s) xs"
      if "find ?Q xs = Some session" for xs
      using that Q by (induction xs) (auto split: if_splits)
    from resp f ids [OF found] others [OF found] show ?thesis
      by (simp add: rows)
  qed
  from merge_all_mono [of fl ps r merged] merged ingest close remote show ?thesis
    by blast
qed

theorem totals_under_writes_witness:
  "current_session_id started_manager = Some 1
   \<and> map ls_total_blinks
         (local_sessions (db (update_session_totals exact_arith True 5 12 started_manager))) = [5]
   \<and> map ls_max_blink_rate
         (local_sessions (db (update_session_totals exact_arith True 5 12 started_manager))) = [12]
   \<and> map ls_total_blinks (local_sessions (db ended_manager)) = [0]
   \<and> map cs_total_blinks (cloud_sessions db_one) = [30]
   \<and> map cs_total_blinks
         (cloud_sessions (fst (projr (upload_session exact_arith 5000 1
            (hd (sur_sessions upload_one)) (db_one, 0, 0))))) = [40]
   \<and> map_option cs_total_blinks
         (case merge_all exact_arith [hd (sur_sessions upload_one), hd (sur_sessions upload_one)]
                 (hd (cloud_sessions db_one)) of
            Inl e \<Rightarrow> None | Inr s \<Rightarrow> Some s) = Some 40
   \<and> sr_total_blinks (snd (projr (end_session 9000 end_request_one user_one db_one))) = 40
   \<and> map cs_total_blinks
         (cloud_sessions (fst (projr (end_session 9000 end_request_one user_one db_one)))) = [40]"
proof -
  let ?p = "hd (sur_sessions upload_one)"
  let ?r = "hd (cloud_sessions db_one)"
  let ?P = "\<lambda>s. cs_user_id s = (1::nat) \<and> cs_start_time s = (1000::int)"
  have h1: "current_session_id started_manager = Some 1"
    by (simp add: started_manager_eq)
  have v: "valid_points (sp_blink_data ?p)"
    by (simp add: upload_one_def point_def valid_points_def)
  have start: "sp_start_time ?p = Some 1000"
    and found: "find ?P (cloud_sessions db_one) = Some ?r"
    by (simp_all add: upload_one_def db_one_def)
  have len: "length (cloud_sessions db_one) = 1" and tot: "map cs_total_blinks (cloud_sessions db_one) = [30]"
    by (simp_all add: db_one_def)
  obtain cdb' n' k' where
    h2: "upload_session exact_arith 5000 1 ?p (db_one, 0, 0) = Inr (cdb', n', k')"
    using upload_session_matched [OF start found, of exact_arith 5000 0 0] v by simp
  have cd: "fst (projr (upload_session exact_arith 5000 1 ?p (db_one, 0, 0))) = cdb'"
    using h2 by simp
  have l2: "length (cloud_sessions cdb') = 1"
    using upload_session_matched [OF start found, of exact_arith 5000 0 0] v h2 len by auto
  have ma: "merge_all exact_arith [?p, ?p] ?r
      = Inr (merged_session exact_arith (merged_session exact_arith ?r ?p) ?p)"
    by (simp add: merge_existing_valid [OF v])
  have h4: "end_session 9000 end_request_one user_one db_one
       = Inr (fst (projr (end_session 9000 end_request_one user_one db_one)),
              snd (projr (end_session 9000 end_request_one user_one db_one)))"
    by (simp add: end_session_def end_request_one_def user_one_def db_one_def Let_def)
  note a = totals_under_writes [where m = started_manager and sid = 1 and blink_count = 5
      and blink_rate = 12 and db_ok = True and end_time = 900 and m' = ended_manager
      and fl = exact_arith]
  note b = totals_under_writes [where p = ?p and t = 1000 and owner = 1
      and cdb = db_one and r = ?r and now = 5000 and n = 0 and k = 0
      and cdb' = cdb' and n' = n' and k' = k' and fl = exact_arith]
  note c = totals_under_writes [where now = 9000 and request = end_request_one
      and current_user = user_one and cdb = db_one
      and cdb' = "fst (projr (end_session 9000 end_request_one user_one db_one))"
      and resp = "snd (projr (end_session 9000 end_request_one user_one db_one))"]
  note d = totals_under_writes [where fl = exact_arith and ps = "[?p, ?p]" and r = ?r
      and merged = "merged_session exact_arith (merged_session exact_arith ?r ?p) ?p"]
  from a h1 have 1: "map ls_total_blinks
         (local_sessions (db (update_session_totals exact_arith True 5 12 started_manager))) = [5]
    \<and> map ls_max_blink_rate
         (local_sessions (db (update_session_totals exact_arith True 5 12 started_manager))) = [12]"
    by (simp add: started_manager_eq)
  from a ended_manager_eq have 2: "map ls_total_blinks (local_sessions (db ended_manager)) = [0]"
    by (simp add: started_manager_eq)
  from b h2 start found
  have m: "merge_existing exact_arith ?p ?r = Inr (the (find ?P (cloud_sessions cdb')))"
    and i: "map_option cs_id (find ?P (cloud_sessions cdb')) = Some (cs_id ?r)"
    by blast+
  from i obtain x where x: "find ?P (cloud_sessions cdb') = Some x" by auto
  with l2 have "cloud_sessions cdb' = [x]"
    by (cases "cloud_sessions cdb'") (auto split: if_splits)
  with m x have "map cs_total_blinks (cloud_sessions cdb')
      = [cs_total_blinks (projr (merge_existing exact_arith ?p ?r))]"
    by simp
  moreover have "cs_total_blinks (merged_session exact_arith ?r ?p) = 40"
    by (simp add: merged_session_def upload_one_def db_one_def point_def point_count_def)
  ultimately have 3: "map cs_total_blinks (cloud_sessions cdb') = [40]"
    by (simp only: merge_existing_valid [OF v] sum.sel)
  from d [THEN conjunct1, THEN mp, OF ma]
  have 9: "cs_total_blinks ?r
      \<le> cs_total_blinks (merged_session exact_arith (merged_session exact_arith ?r ?p) ?p)"
    by (rule conjunct1)
  have 5: "map_option cs_total_blinks
         (case merge_all exact_arith [?p, ?p] ?r of Inl e \<Rightarrow> None | Inr s \<Rightarrow> Some s) = Some 40"
    unfolding ma
    by (simp add: merged_session_def upload_one_def db_one_def point_def point_count_def)
  from c h4 have 4: "sr_total_blinks (snd (projr (end_session 9000 end_request_one user_one db_one))) = 40"
    and 6: "map_option cs_total_blinks
              (find (\<lambda>s. cs_id s = ser_session_id end_request_one)
                 (cloud_sessions (fst (projr (end_session 9000 end_request_one user_one db_one)))))
            = Some 40"
    and 7: "map cs_id (cloud_sessions (fst (projr (end_session 9000 end_request_one user_one db_one))))
            = map cs_id (cloud_sessions db_one)"
    by (simp_all add: end_request_one_def)
  from 7 have l8: "length (cloud_sessions (fst (projr (end_session 9000 end_request_one user_one db_one)))) = 1"
    using len by (metis length_map)
  from 6 obtain y where y: "find (\<lambda>s. cs_id s = ser_session_id end_request_one)
                 (cloud_sessions (fst (projr (end_session 9000 end_request_one user_one db_one))))
            = Some y" and y40: "cs_total_blinks y = 40"
    by auto
  from y l8 have "cloud_sessions (fst (projr (end_session 9000 end_request_one user_one db_one))) = [y]"
    by (cases "cloud_sessions (fst (projr (end_session 9000 end_request_one user_one db_one)))")
       (auto split: if_splits)
  with y40 have 8: "map cs_total_blinks
         (cloud_sessions (fst (projr (end_session 9000 end_request_one user_one db_one)))) = [40]"
    by simp
  from h1 1 2 3 4 5 8 9 tot cd show ?thesis by simp
qed

text \<open>
  C8 as stated fails: an ingest with count 3 after one with count 5 lowers the stored
  total of the session from 5 to 3.
\<close>

theorem ingest_lowers_total:
  "map ls_total_blinks (local_sessions (db after_blink_5)) = [5]
   \<and> after_blink_3 = fst (log_blink exact_arith True 120 3 12 None after_blink_5)
   \<and> map ls_total_blinks (local_sessions (db after_blink_3)) = [3]"
proof -
  have "map ls_total_blinks (local_sessions (db after_blink_3)) = [3]"
    by (simp add: after_blink_3_def log_blink_def log_blink_try_def put_nowait_def
      queue_full_def update_session_totals_def after_blink_5_eq Let_def)
  with after_blink_3_def show ?thesis
    by (simp add: after_blink_5_eq)
qed

end
